theory Spec2Isabelle
  imports Complex_Main
begin

section \<open>Conventions of the embedding\<close>

text \<open>
  The program is asynchronous Python. Each coroutine is embedded as a function that
  takes the state it reads and returns its result with the state it leaves; the two
  coroutines that the program runs as tasks of their own are embedded a second time with
  the points where they wait.
  Python floats are embedded as \<^typ>\<open>real\<close> (no rounding, no NaN), Python ints as
  \<^typ>\<open>int\<close> or \<^typ>\<open>nat\<close>, a dict as a map, a list as a list.
  Readings of the clock (\<^verbatim>\<open>time.time()\<close>, \<^verbatim>\<open>datetime.now()\<close>) are arguments
  of the function that reads them, in seconds.
  An exception derived from \<^verbatim>\<open>Exception\<close> is a value of type \<open>exn\<close>; a coroutine
  that may raise returns \<open>exn + 'a\<close> with \<open>Inl\<close> for the exception.
\<close>

subsection \<open>Python helpers\<close>

definition py_range :: "int \<Rightarrow> nat list" where
  \<comment> \<open>\<^verbatim>\<open>range(n)\<close>: empty when \<open>n \<le> 0\<close>\<close>
  "py_range n = [0..<nat n]"

definition last_slice :: "nat \<Rightarrow> 'a list \<Rightarrow> 'a list" where
  \<comment> \<open>\<^verbatim>\<open>xs[-n:]\<close> for \<open>n \<ge> 0\<close>: the last \<open>n\<close> elements, the whole list when
      \<open>n\<close> exceeds the length, and also the whole list when \<open>n = 0\<close> (\<^verbatim>\<open>xs[-0:]\<close> is \<^verbatim>\<open>xs[0:]\<close>)\<close>
  "last_slice n xs = (if n = 0 then xs else drop (length xs - n) xs)"

definition upper_char :: "char \<Rightarrow> char" where
  "upper_char c =
     (if 97 \<le> (of_char c :: nat) \<and> (of_char c :: nat) \<le> 122
      then char_of ((of_char c :: nat) - 32) else c)"

definition upper :: "string \<Rightarrow> string" where
  \<comment> \<open>\<^verbatim>\<open>str.upper()\<close> on ASCII text\<close>
  "upper s = map upper_char s"

fun contains :: "string \<Rightarrow> string \<Rightarrow> bool" where
  \<comment> \<open>\<^verbatim>\<open>sub in s\<close>\<close>
  "contains sub [] = (sub = [])"
| "contains sub (c # cs) = (take (length sub) (c # cs) = sub \<or> contains sub cs)"

function replace :: "string \<Rightarrow> string \<Rightarrow> string \<Rightarrow> string" where
  \<comment> \<open>\<^verbatim>\<open>s.replace(old, new)\<close> for a non-empty \<open>old\<close>: leftmost occurrences, not overlapping\<close>
  "replace old new [] = []"
| "replace old new (c # cs) =
     (if old \<noteq> [] \<and> take (length old) (c # cs) = old
      then new @ replace old new (drop (length old) (c # cs))
      else c # replace old new cs)"
  by pat_completeness auto
termination
  by (relation "measure (\<lambda>(old, new, s). length s)") auto

fun digit_char :: "nat \<Rightarrow> char" where
  "digit_char n = char_of (48 + n)"

fun str_nat :: "nat \<Rightarrow> string" where
  "str_nat n = (if n < 10 then [digit_char n] else str_nat (n div 10) @ [digit_char (n mod 10)])"

definition str_int :: "int \<Rightarrow> string" where
  "str_int i = (if i < 0 then CHR ''-'' # str_nat (nat (- i)) else str_nat (nat i))"

subsection \<open>core/exceptions.py\<close>

text \<open>
  The exception classes of the program, with the classes of the Python runtime and of the
  HTTP library that its handlers name. Every class of \<^verbatim>\<open>core/exceptions.py\<close> derives
  from \<^verbatim>\<open>BinanceAPIError\<close>.
\<close>

datatype exn_class =
    BinanceAPIError | RateLimitError | InsufficientBalanceError | InvalidSymbolError
  | OrderError | ConnectionError | AuthenticationError
  | ClientError | ZeroDivisionError | TypeError | IndexError | OtherException

datatype jval = JStr string | JInt int


datatype exn = Exn (cls: exn_class) (message: jval) (error_code: "jval option")


fun str_jval :: "jval \<Rightarrow> string" where
  "str_jval (JStr s) = s"
| "str_jval (JInt i) = str_int i"

definition str_exn :: "exn \<Rightarrow> string" where
  \<comment> \<open>\<^verbatim>\<open>str(e)\<close>: the message the exception was built with\<close>
  "str_exn e = str_jval (message e)"

definition mk_exn :: "exn_class \<Rightarrow> string \<Rightarrow> exn" where
  "mk_exn c m = Exn c (JStr m) None"

subsection \<open>core/models.py\<close>

datatype OrderSide = BUY | SELL

datatype OrderType = MARKET | LIMIT | STOP_LOSS | STOP_LOSS_LIMIT | TAKE_PROFIT | TAKE_PROFIT_LIMIT

datatype OrderStatus = NEW | PARTIALLY_FILLED | FILLED | CANCELED | PENDING_CANCEL | REJECTED | EXPIRED

fun OrderSide_value :: "OrderSide \<Rightarrow> string" where
  "OrderSide_value BUY = ''BUY''"
| "OrderSide_value SELL = ''SELL''"

record Balance =
  asset :: string
  free :: real
  locked :: real

record Order =
  symbol :: string
  order_id :: int
  client_order_id :: string
  side :: OrderSide
  type :: OrderType
  status :: OrderStatus
  quantity :: real
  price :: "real option"
  executed_quantity :: real
  quote_quantity :: real
  timestamp :: real

section \<open>utils/helpers.py\<close>

subsection \<open>Trading helpers\<close>

datatype side_arg = Side OrderSide | SideStr string
  \<comment> \<open>\<^verbatim>\<open>Union[str, OrderSide]\<close>\<close>

definition side_str :: "side_arg \<Rightarrow> string" where
  \<comment> \<open>\<^verbatim>\<open>side.value if isinstance(side, OrderSide) else side.upper()\<close>\<close>
  "side_str sd = (case sd of Side s \<Rightarrow> OrderSide_value s | SideStr s \<Rightarrow> upper s)"

definition calculate_stop_loss :: "real \<Rightarrow> real \<Rightarrow> side_arg \<Rightarrow> real" where
  "calculate_stop_loss entry_price percentage sd =
     (if side_str sd = ''BUY'' then entry_price * (1 - percentage)
      else entry_price * (1 + percentage))"

definition calculate_take_profit :: "real \<Rightarrow> real \<Rightarrow> side_arg \<Rightarrow> real" where
  "calculate_take_profit entry_price percentage sd =
     (if side_str sd = ''BUY'' then entry_price * (1 + percentage)
      else entry_price * (1 - percentage))"

subsection \<open>AsyncCache\<close>

record 'v AsyncCache =
  ttl :: real
  cache :: "string \<rightharpoonup> ('v \<times> real)"

definition AsyncCache_init :: "real \<Rightarrow> 'v AsyncCache" where
  "AsyncCache_init t = \<lparr>ttl = t, cache = Map.empty\<rparr>"

definition cache_get :: "string \<Rightarrow> real \<Rightarrow> 'v AsyncCache \<Rightarrow> 'v option \<times> 'v AsyncCache" where
  \<comment> \<open>\<^verbatim>\<open>get(key)\<close> with \<open>now\<close> the reading of \<^verbatim>\<open>time.time()\<close>\<close>
  "cache_get key now c =
     (case cache c key of
        Some (v, stamp) \<Rightarrow>
          if now - stamp < ttl c then (Some v, c)
          else (None, c\<lparr>cache := (cache c)(key := None)\<rparr>)
      | None \<Rightarrow> (None, c))"

definition cache_set :: "string \<Rightarrow> 'v \<Rightarrow> real \<Rightarrow> 'v AsyncCache \<Rightarrow> 'v AsyncCache" where
  "cache_set key v now c = c\<lparr>cache := (cache c)(key \<mapsto> (v, now))\<rparr>"

definition cache_clear :: "'v AsyncCache \<Rightarrow> 'v AsyncCache" where
  "cache_clear c = c\<lparr>cache := Map.empty\<rparr>"

section \<open>core/client.py as seen by the services\<close>

text \<open>
  Every method of \<^verbatim>\<open>AsyncBinanceClient\<close> that the services call ends in one HTTP
  request, and what the exchange answers is not part of the program. The embedding takes
  the answers from an arbitrary state machine over a state \<open>'g\<close>, one transition for
  each method; the theorems about the services hold for every such machine. The
  convenience methods that only fill in the parameters of \<^verbatim>\<open>place_order\<close> are
  embedded as they are written.
\<close>

record order_params =
  p_symbol :: string
  p_side :: OrderSide
  p_type :: OrderType
  p_quantity :: "real option"
  p_price :: "real option"
  quoteOrderQty :: "real option"
  stopPrice :: "real option"
  timeInForce :: "string option"

record 'g exchange =
  x_get_balance :: "string \<Rightarrow> 'g \<Rightarrow> (exn + Balance option) \<times> 'g"
  x_get_price :: "string \<Rightarrow> 'g \<Rightarrow> (exn + real) \<times> 'g"
  x_place_order :: "order_params \<Rightarrow> 'g \<Rightarrow> (exn + Order) \<times> 'g"
  x_cancel_order :: "string \<Rightarrow> int \<Rightarrow> 'g \<Rightarrow> (exn + Order) \<times> 'g"

datatype api_call =
    GetBalance string | GetPrice string | PlaceOrder order_params | CancelOrder string int

datatype task_desc =
    StopLossTask string OrderSide real real
  | LimitTask string OrderSide real real

text \<open>
  What a run of the service does in order: taking and releasing \<^verbatim>\<open>_order_lock\<close>, each
  call of a client method with whether it returned (\<open>True\<close>) or raised, each
  \<^verbatim>\<open>asyncio.sleep\<close>, each \<^verbatim>\<open>asyncio.create_task\<close> and the \<^verbatim>\<open>asyncio.gather\<close>.
\<close>

datatype event =
    LockAcquire | LockRelease | Call api_call bool | Sleep real
  | CreateTask task_desc | Gather

record Position =
  total_quantity :: real
  total_cost :: real
  average_price :: real
  orders :: "Order list"

record 'g TradingService =
  client :: 'g
  active_orders :: "int \<rightharpoonup> Order"
  position_tracker :: "string \<rightharpoonup> Position"
  events :: "event list"

type_synonym ('a, 'g) coro = "'g TradingService \<Rightarrow> (exn + 'a) \<times> 'g TradingService"

definition return :: "'a \<Rightarrow> ('a, 'g) coro" where
  "return a s = (Inr a, s)"

definition raise :: "exn \<Rightarrow> ('a, 'g) coro" where
  "raise e s = (Inl e, s)"

definition await :: "('a, 'g) coro \<Rightarrow> ('a \<Rightarrow> ('b, 'g) coro) \<Rightarrow> ('b, 'g) coro" where
  \<comment> \<open>\<^verbatim>\<open>x = await m\<close> followed by the rest of the block\<close>
  "await m f s = (case m s of (Inl e, s') \<Rightarrow> (Inl e, s') | (Inr a, s') \<Rightarrow> f a s')"

definition try_except :: "('a, 'g) coro \<Rightarrow> (exn \<Rightarrow> ('a, 'g) coro) \<Rightarrow> ('a, 'g) coro" where
  \<comment> \<open>\<^verbatim>\<open>try: m  except Exception as e: h(e)\<close>\<close>
  "try_except m h s = (case m s of (Inl e, s') \<Rightarrow> h e s' | (Inr a, s') \<Rightarrow> (Inr a, s'))"

definition emit :: "event \<Rightarrow> 'g TradingService \<Rightarrow> 'g TradingService" where
  "emit ev s = s\<lparr>events := events s @ [ev]\<rparr>"

definition with_order_lock :: "('a, 'g) coro \<Rightarrow> ('a, 'g) coro" where
  \<comment> \<open>\<^verbatim>\<open>async with self._order_lock:\<close> run by a task that finds the lock free; the lock is
      released on the way out, also when the block raises\<close>
  "with_order_lock m s = (case m (emit LockAcquire s) of (r, s') \<Rightarrow> (r, emit LockRelease s'))"

definition returned :: "exn + 'a \<Rightarrow> bool" where
  "returned r = (case r of Inl _ \<Rightarrow> False | Inr _ \<Rightarrow> True)"

definition client_call :: "api_call \<Rightarrow> ('g \<Rightarrow> (exn + 'a) \<times> 'g) \<Rightarrow> ('a, 'g) coro" where
  "client_call c f s =
     (case f (client s) of (r, g') \<Rightarrow> (r, emit (Call c (returned r)) (s\<lparr>client := g'\<rparr>)))"

definition client_get_balance :: "'g exchange \<Rightarrow> string \<Rightarrow> (Balance option, 'g) coro" where
  "client_get_balance X a = client_call (GetBalance a) (x_get_balance X a)"

definition client_get_price :: "'g exchange \<Rightarrow> string \<Rightarrow> (real, 'g) coro" where
  "client_get_price X symb = client_call (GetPrice symb) (x_get_price X symb)"

definition client_cancel_order :: "'g exchange \<Rightarrow> string \<Rightarrow> int \<Rightarrow> (Order, 'g) coro" where
  "client_cancel_order X symb oid = client_call (CancelOrder symb oid) (x_cancel_order X symb oid)"

definition client_place_order ::
  "'g exchange \<Rightarrow> string \<Rightarrow> OrderSide \<Rightarrow> OrderType \<Rightarrow> real option \<Rightarrow> real option
     \<Rightarrow> real option \<Rightarrow> real option \<Rightarrow> (Order, 'g) coro" where
  \<comment> \<open>the two keyword arguments that the program passes are \<^verbatim>\<open>quoteOrderQty\<close> and \<^verbatim>\<open>stopPrice\<close>\<close>
  "client_place_order X symb sd order_type qty prc quote_order_qty stop_price =
     (let params = \<lparr>p_symbol = symb, p_side = sd, p_type = order_type, p_quantity = qty,
                     p_price = prc, quoteOrderQty = quote_order_qty, stopPrice = stop_price,
                     timeInForce = (if order_type = LIMIT then Some ''GTC'' else None)\<rparr>
      in client_call (PlaceOrder params) (x_place_order X params))"

definition place_market_buy :: "'g exchange \<Rightarrow> string \<Rightarrow> real \<Rightarrow> (Order, 'g) coro" where
  "place_market_buy X symb quote_order_qty =
     client_place_order X symb BUY MARKET None None (Some quote_order_qty) None"

definition place_market_sell :: "'g exchange \<Rightarrow> string \<Rightarrow> real \<Rightarrow> (Order, 'g) coro" where
  "place_market_sell X symb qty = client_place_order X symb SELL MARKET (Some qty) None None None"

definition client_place_limit_order ::
  "'g exchange \<Rightarrow> string \<Rightarrow> OrderSide \<Rightarrow> real \<Rightarrow> real \<Rightarrow> (Order, 'g) coro" where
  "client_place_limit_order X symb sd qty prc =
     client_place_order X symb sd LIMIT (Some qty) (Some prc) None None"

section \<open>The decorator retry\_async of utils/helpers.py\<close>

fun retry_loop ::
  "int \<Rightarrow> real \<Rightarrow> real \<Rightarrow> ('a, 'g) coro \<Rightarrow> nat list \<Rightarrow> exn option \<Rightarrow> ('a, 'g) coro" where
  "retry_loop max_retries delay backoff_factor func [] last_exception s =
     (case last_exception of
        Some e \<Rightarrow> (Inl e, s)
      | None \<Rightarrow> (Inl (mk_exn TypeError ''exceptions must derive from BaseException''), s))"
| "retry_loop max_retries delay backoff_factor func (attempt # rest) last_exception s =
     (case func s of
        (Inr r, s') \<Rightarrow> (Inr r, s')
      | (Inl e, s') \<Rightarrow>
          retry_loop max_retries delay backoff_factor func rest (Some e)
            (if int attempt < max_retries - 1
             then emit (Sleep (delay * backoff_factor ^ attempt)) s' else s'))"

definition retry_async :: "int \<Rightarrow> real \<Rightarrow> real \<Rightarrow> ('a, 'g) coro \<Rightarrow> ('a, 'g) coro" where
  \<comment> \<open>the wrapper that the decorator returns: \<^verbatim>\<open>for attempt in range(max_retries)\<close>\<close>
  "retry_async max_retries delay backoff_factor func =
     retry_loop max_retries delay backoff_factor func (py_range max_retries) None"

section \<open>services/trading.py\<close>

definition TradingService_init :: "'g \<Rightarrow> 'g TradingService" where
  "TradingService_init g =
     \<lparr>client = g, active_orders = Map.empty, position_tracker = Map.empty, events = []\<rparr>"

definition truthy :: "real option \<Rightarrow> bool" where
  \<comment> \<open>the truth value of an \<^verbatim>\<open>Optional[float]\<close>: \<^verbatim>\<open>None\<close> and \<^verbatim>\<open>0.0\<close> are false\<close>
  "truthy x = (case x of None \<Rightarrow> False | Some v \<Rightarrow> v \<noteq> 0)"

definition validate_balance ::
  "'g exchange \<Rightarrow> string \<Rightarrow> OrderSide \<Rightarrow> real option \<Rightarrow> real option \<Rightarrow> real option
     \<Rightarrow> (bool, 'g) coro" where
  \<comment> \<open>\<^verbatim>\<open>_validate_balance(symbol, side, quantity, price, quote_quantity)\<close>\<close>
  "validate_balance X symb sd qty prc quote_qty =
     try_except
       (let base_asset = replace ''BUSD'' [] (replace ''USDT'' [] symb);
            quote_asset = (if contains ''USDT'' symb then ''USDT'' else ''BUSD'')
        in if sd = BUY then
             await (client_get_balance X quote_asset) (\<lambda>balance.
               case balance of
                 None \<Rightarrow> return False
               | Some b \<Rightarrow>
                   if truthy quote_qty then return (free b \<ge> the quote_qty)
                   else if truthy qty \<and> truthy prc then return (free b \<ge> the qty * the prc)
                   else return False)
           else
             await (client_get_balance X base_asset) (\<lambda>balance.
               case balance of
                 None \<Rightarrow> return False
               | Some b \<Rightarrow>
                   if truthy qty then return (free b \<ge> the qty)
                   else if truthy quote_qty \<and> truthy prc
                     then return (free b \<ge> the quote_qty / the prc)
                   else return False))
       (\<lambda>e. return False)"

definition update_position_tracker :: "string \<Rightarrow> Order \<Rightarrow> (unit, 'g) coro" where
  "update_position_tracker symb order s =
     (let position0 = (case position_tracker s symb of
                         None \<Rightarrow> \<lparr>total_quantity = 0, total_cost = 0, average_price = 0,
                                   orders = []\<rparr>
                       | Some p \<Rightarrow> p);
          position1 = position0\<lparr>orders := orders position0 @ [order]\<rparr>;
          position2 =
            (if side order = BUY
             then position1\<lparr>total_quantity := total_quantity position1 + executed_quantity order,
                             total_cost := total_cost position1 + quote_quantity order\<rparr>
             else position1\<lparr>total_quantity := total_quantity position1 - executed_quantity order,
                             total_cost := total_cost position1 - quote_quantity order\<rparr>);
          position3 =
            (if total_quantity position2 > 0
             then position2\<lparr>average_price := total_cost position2 / total_quantity position2\<rparr>
             else position2)
      in (Inr (), s\<lparr>position_tracker := (position_tracker s)(symb \<mapsto> position3)\<rparr>))"

definition track_order :: "Order \<Rightarrow> (unit, 'g) coro" where
  \<comment> \<open>\<^verbatim>\<open>self.active_orders[order.order_id] = order\<close>\<close>
  "track_order order s = (Inr (), s\<lparr>active_orders := (active_orders s)(order_id order \<mapsto> order)\<rparr>)"

definition place_market_order_body ::
  "'g exchange \<Rightarrow> string \<Rightarrow> OrderSide \<Rightarrow> real \<Rightarrow> (Order, 'g) coro" where
  \<comment> \<open>the function that \<^verbatim>\<open>@retry_async(max_retries=3)\<close> decorates\<close>
  "place_market_order_body X symb sd quote_qty =
     with_order_lock
       (try_except
          (await (validate_balance X symb sd None None (Some quote_qty)) (\<lambda>ok.
             if \<not> ok
             then raise (mk_exn InsufficientBalanceError
                           (''Insufficient balance for '' @ OrderSide_value sd @ '' order''))
             else
               await (if sd = BUY then place_market_buy X symb quote_qty
                      else await (client_get_price X symb) (\<lambda>current_price.
                             if current_price = 0
                             then raise (mk_exn ZeroDivisionError ''float division by zero'')
                             else place_market_sell X symb (quote_qty / current_price)))
                 (\<lambda>order.
                    await (track_order order) (\<lambda>_.
                    await (update_position_tracker symb order) (\<lambda>_.
                    return order)))))
          (\<lambda>e. raise (mk_exn OrderError (''Market order failed: '' @ str_exn e))))"

definition place_market_order ::
  "'g exchange \<Rightarrow> string \<Rightarrow> OrderSide \<Rightarrow> real \<Rightarrow> (Order, 'g) coro" where
  "place_market_order X symb sd quote_qty =
     retry_async 3 1 2 (place_market_order_body X symb sd quote_qty)"

definition place_limit_order_body ::
  "'g exchange \<Rightarrow> string \<Rightarrow> OrderSide \<Rightarrow> real \<Rightarrow> real \<Rightarrow> (Order, 'g) coro" where
  "place_limit_order_body X symb sd qty prc =
     with_order_lock
       (try_except
          (await (validate_balance X symb sd (Some qty) (Some prc) None) (\<lambda>ok.
             if \<not> ok
             then raise (mk_exn InsufficientBalanceError
                           (''Insufficient balance for '' @ OrderSide_value sd @ '' order''))
             else
               await (client_place_limit_order X symb sd qty prc) (\<lambda>order.
               await (track_order order) (\<lambda>_.
               return order))))
          (\<lambda>e. raise (mk_exn OrderError (''Limit order failed: '' @ str_exn e))))"

definition place_limit_order ::
  "'g exchange \<Rightarrow> string \<Rightarrow> OrderSide \<Rightarrow> real \<Rightarrow> real \<Rightarrow> (Order, 'g) coro" where
  "place_limit_order X symb sd qty prc =
     retry_async 3 1 2 (place_limit_order_body X symb sd qty prc)"

definition place_stop_loss_order_body ::
  "'g exchange \<Rightarrow> string \<Rightarrow> OrderSide \<Rightarrow> real \<Rightarrow> real \<Rightarrow> (Order, 'g) coro" where
  "place_stop_loss_order_body X symb sd qty stop_price =
     try_except
       (await (client_place_order X symb sd STOP_LOSS (Some qty) None None (Some stop_price))
          (\<lambda>order.
             await (track_order order) (\<lambda>_.
             return order)))
       (\<lambda>e. raise (mk_exn OrderError (''Stop loss order failed: '' @ str_exn e)))"

definition place_stop_loss_order ::
  "'g exchange \<Rightarrow> string \<Rightarrow> OrderSide \<Rightarrow> real \<Rightarrow> real \<Rightarrow> (Order, 'g) coro" where
  "place_stop_loss_order X symb sd qty stop_price =
     retry_async 3 1 2 (place_stop_loss_order_body X symb sd qty stop_price)"

definition cancel_order :: "'g exchange \<Rightarrow> string \<Rightarrow> int \<Rightarrow> (bool, 'g) coro" where
  "cancel_order X symb oid =
     try_except
       (await (client_cancel_order X symb oid) (\<lambda>_.
          (\<lambda>s. (Inr True, s\<lparr>active_orders := (active_orders s)(oid := None)\<rparr>))))
       (\<lambda>e. return False)"

subsection \<open>Tasks of the event loop\<close>

text \<open>
  A coroutine that is awaited runs to its end before its caller goes on, and this is how
  the coroutines above are written. A coroutine handed to \<^verbatim>\<open>asyncio.create_task\<close> runs
  as a task of its own. The event loop runs one task at a time; a task gives way only
  where it has to wait, which in this service is for the answer to a request that the
  client has sent and in \<^verbatim>\<open>asyncio.sleep\<close>; and which of the waiting tasks goes on next
  is decided by the order in which the answers arrive, not by the program. A task is
  therefore a function that runs from the present state of the service to the next point
  where the task waits, and gives there its result or the rest of the task. The answer of
  the exchange to a request is taken when the task that sent it goes on.
\<close>

datatype ('a, 'g) progress =
    Finished "exn + 'a"
  | Suspended "'g TradingService \<Rightarrow> ('a, 'g) progress \<times> 'g TradingService"

type_synonym ('a, 'g) task = "'g TradingService \<Rightarrow> ('a, 'g) progress \<times> 'g TradingService"

definition task_return :: "'a \<Rightarrow> ('a, 'g) task" where
  "task_return a s = (Finished (Inr a), s)"

definition task_raise :: "exn \<Rightarrow> ('a, 'g) task" where
  "task_raise e s = (Finished (Inl e), s)"

definition atomic :: "('a, 'g) coro \<Rightarrow> ('a, 'g) task" where
  \<comment> \<open>code in which the task does not wait\<close>
  "atomic m s = (case m s of (r, s') \<Rightarrow> (Finished r, s'))"

definition waiting :: "('a, 'g) coro \<Rightarrow> ('a, 'g) task" where
  \<comment> \<open>a coroutine that starts by sending a request to the client, without an effect on the
      service before it, and that waits nowhere else: the task waits for the answer and,
      when it goes on, runs the coroutine from the answer to its end\<close>
  "waiting m s = (Suspended (atomic m), s)"

definition task_sleep :: "real \<Rightarrow> (unit, 'g) task" where
  \<comment> \<open>\<^verbatim>\<open>await asyncio.sleep(d)\<close>\<close>
  "task_sleep d s = (Suspended (task_return ()), emit (Sleep d) s)"

primrec resume_with ::
  "('a, 'g) progress \<Rightarrow> (exn + 'a \<Rightarrow> ('b, 'g) task) \<Rightarrow> ('b, 'g) task" where
  \<comment> \<open>the code \<open>k\<close> that follows a piece of a task: it runs when the piece has finished, on
      what the piece returned or raised\<close>
  "resume_with (Finished r) = (\<lambda>k. k r)"
| "resume_with (Suspended rest) =
     (\<lambda>k s. (Suspended (\<lambda>s'. case map_prod resume_with id (rest s') of (p, s'') \<Rightarrow> p k s''), s))"

definition task_then :: "('a, 'g) task \<Rightarrow> (exn + 'a \<Rightarrow> ('b, 'g) task) \<Rightarrow> ('b, 'g) task" where
  "task_then m k s = (case m s of (p, s') \<Rightarrow> resume_with p k s')"

definition task_await :: "('a, 'g) task \<Rightarrow> ('a \<Rightarrow> ('b, 'g) task) \<Rightarrow> ('b, 'g) task" where
  \<comment> \<open>\<^verbatim>\<open>x = await m\<close> followed by the rest of the block, inside a task\<close>
  "task_await m f = task_then m (\<lambda>r. case r of Inl e \<Rightarrow> task_raise e | Inr a \<Rightarrow> f a)"

definition task_try_except ::
  "('a, 'g) task \<Rightarrow> (exn \<Rightarrow> ('a, 'g) task) \<Rightarrow> ('a, 'g) task" where
  \<comment> \<open>\<^verbatim>\<open>try: m  except Exception as e: h(e)\<close>, inside a task\<close>
  "task_try_except m h = task_then m (\<lambda>r. case r of Inl e \<Rightarrow> h e | Inr a \<Rightarrow> task_return a)"

definition task_with_order_lock :: "('a, 'g) task \<Rightarrow> ('a, 'g) task" where
  \<comment> \<open>\<^verbatim>\<open>async with self._order_lock:\<close> in a task that finds the lock free, so that taking it
      is no wait; the lock is released on the way out\<close>
  "task_with_order_lock m s =
     task_then m (\<lambda>r s'. (Finished r, emit LockRelease s')) (emit LockAcquire s)"

primrec run_progress :: "('a, 'g) progress \<Rightarrow> ('a, 'g) coro" where
  "run_progress (Finished r) = (\<lambda>s. (r, s))"
| "run_progress (Suspended rest) =
     (\<lambda>s. case map_prod run_progress id (rest s) of (p, s') \<Rightarrow> p s')"

definition run_alone :: "('a, 'g) task \<Rightarrow> ('a, 'g) coro" where
  \<comment> \<open>the task when no other task runs between its pieces\<close>
  "run_alone m s = (case m s of (p, s') \<Rightarrow> run_progress p s')"

fun retry_task_loop ::
  "int \<Rightarrow> real \<Rightarrow> real \<Rightarrow> ('a, 'g) task \<Rightarrow> nat list \<Rightarrow> exn option \<Rightarrow> ('a, 'g) task" where
  \<comment> \<open>the wrapper of \<^verbatim>\<open>retry_async\<close> around a function that runs in a task\<close>
  "retry_task_loop max_retries delay backoff_factor func [] last_exception =
     (case last_exception of
        Some e \<Rightarrow> task_raise e
      | None \<Rightarrow> task_raise (mk_exn TypeError ''exceptions must derive from BaseException''))"
| "retry_task_loop max_retries delay backoff_factor func (attempt # rest) last_exception =
     task_then func (\<lambda>r.
       case r of
         Inr a \<Rightarrow> task_return a
       | Inl e \<Rightarrow>
           if int attempt < max_retries - 1
           then task_await (task_sleep (delay * backoff_factor ^ attempt)) (\<lambda>_.
                  retry_task_loop max_retries delay backoff_factor func rest (Some e))
           else retry_task_loop max_retries delay backoff_factor func rest (Some e))"

definition retry_async_task :: "int \<Rightarrow> real \<Rightarrow> real \<Rightarrow> ('a, 'g) task \<Rightarrow> ('a, 'g) task" where
  "retry_async_task max_retries delay backoff_factor func =
     retry_task_loop max_retries delay backoff_factor func (py_range max_retries) None"

definition place_stop_loss_order_task ::
  "'g exchange \<Rightarrow> string \<Rightarrow> OrderSide \<Rightarrow> real \<Rightarrow> real \<Rightarrow> (Order, 'g) task" where
  \<comment> \<open>\<^verbatim>\<open>place_stop_loss_order\<close> as a task: an attempt starts with its request to the client
      and waits nowhere else\<close>
  "place_stop_loss_order_task X symb sd qty stop_price =
     retry_async_task 3 1 2 (waiting (place_stop_loss_order_body X symb sd qty stop_price))"

definition place_limit_order_task_body ::
  "'g exchange \<Rightarrow> string \<Rightarrow> OrderSide \<Rightarrow> real \<Rightarrow> real \<Rightarrow> (Order, 'g) task" where
  \<comment> \<open>the body of \<^verbatim>\<open>place_limit_order\<close> in a task: it waits for the balance inside
      \<^verbatim>\<open>_validate_balance\<close>, which starts with that request, and for the placement\<close>
  "place_limit_order_task_body X symb sd qty prc =
     task_with_order_lock
       (task_try_except
          (task_await (waiting (validate_balance X symb sd (Some qty) (Some prc) None)) (\<lambda>ok.
             if \<not> ok
             then task_raise (mk_exn InsufficientBalanceError
                                (''Insufficient balance for '' @ OrderSide_value sd @ '' order''))
             else
               task_await (waiting (client_place_limit_order X symb sd qty prc)) (\<lambda>order.
               task_await (atomic (track_order order)) (\<lambda>_.
               task_return order))))
          (\<lambda>e. task_raise (mk_exn OrderError (''Limit order failed: '' @ str_exn e))))"

definition place_limit_order_task ::
  "'g exchange \<Rightarrow> string \<Rightarrow> OrderSide \<Rightarrow> real \<Rightarrow> real \<Rightarrow> (Order, 'g) task" where
  "place_limit_order_task X symb sd qty prc =
     retry_async_task 3 1 2 (place_limit_order_task_body X symb sd qty prc)"

text \<open>
  \<^verbatim>\<open>execute_strategy_order\<close> creates two tasks and awaits both with \<^verbatim>\<open>asyncio.gather\<close>.
  A created task does not start before its creator waits, which here is at the gather.
  There the event loop starts the two tasks in the order of their creation, each running
  to its first wait, and from then on lets the waiting tasks go on one piece at a time in
  an order that the program does not decide: the schedule, a list that says at each turn
  whether the first task goes on (\<open>True\<close>) or the second. A schedule that ends before the
  tasks do goes on with the first task as long as it lasts. A task that has finished is
  out of the choice. When a task raises, the gather raises that exception at once; the
  other task is not cancelled, and what it does afterwards is not part of the call.
\<close>

fun gather_loop ::
  "bool list \<Rightarrow> ('a, 'g) progress \<Rightarrow> ('b, 'g) progress \<Rightarrow> ('a \<times> 'b, 'g) coro" where
  "gather_loop schedule (Finished (Inl e)) p2 s = (Inl e, s)"
| "gather_loop schedule (Finished (Inr a)) (Finished (Inl e)) s = (Inl e, s)"
| "gather_loop schedule (Suspended rest1) (Finished (Inl e)) s = (Inl e, s)"
| "gather_loop schedule (Finished (Inr a)) (Finished (Inr b)) s = (Inr (a, b), s)"
| "gather_loop schedule (Finished (Inr a)) (Suspended rest2) s =
     (case run_progress (Suspended rest2) s of
        (Inl e, s') \<Rightarrow> (Inl e, s')
      | (Inr b, s') \<Rightarrow> (Inr (a, b), s'))"
| "gather_loop schedule (Suspended rest1) (Finished (Inr b)) s =
     (case run_progress (Suspended rest1) s of
        (Inl e, s') \<Rightarrow> (Inl e, s')
      | (Inr a, s') \<Rightarrow> (Inr (a, b), s'))"
| "gather_loop [] (Suspended rest1) (Suspended rest2) s =
     (case run_progress (Suspended rest1) s of
        (Inl e, s') \<Rightarrow> (Inl e, s')
      | (Inr a, s') \<Rightarrow>
          (case run_progress (Suspended rest2) s' of
             (Inl e, s'') \<Rightarrow> (Inl e, s'')
           | (Inr b, s'') \<Rightarrow> (Inr (a, b), s'')))"
| "gather_loop (first # schedule) (Suspended rest1) (Suspended rest2) s =
     (if first
      then (case rest1 s of (p1, s') \<Rightarrow> gather_loop schedule p1 (Suspended rest2) s')
      else (case rest2 s of (p2, s') \<Rightarrow> gather_loop schedule (Suspended rest1) p2 s'))"

record strategy_result =
  res_main_order :: Order
  res_stop_loss_order :: Order
  res_take_profit_order :: Order
  res_entry_price :: real
  res_stop_loss_price :: real
  res_take_profit_price :: real
  res_executed_quantity :: real
  res_risk_amount :: real

definition create_task :: "task_desc \<Rightarrow> (unit, 'g) coro" where
  "create_task d s = (Inr (), emit (CreateTask d) s)"

definition gather ::
  "bool list \<Rightarrow> ('a, 'g) task \<Rightarrow> ('b, 'g) task \<Rightarrow> ('a \<times> 'b, 'g) coro" where
  "gather schedule t1 t2 s =
     (case t1 (emit Gather s) of (p1, s1) \<Rightarrow>
        (case t2 s1 of (p2, s2) \<Rightarrow> gather_loop schedule p1 p2 s2))"

definition execute_strategy_order ::
  "bool list \<Rightarrow> 'g exchange \<Rightarrow> string \<Rightarrow> OrderSide \<Rightarrow> real \<Rightarrow> real \<Rightarrow> real \<Rightarrow> real
     \<Rightarrow> (strategy_result, 'g) coro" where
  \<comment> \<open>the first argument is the schedule of the two tasks, which is not the program's\<close>
  "execute_strategy_order schedule X symb sd risk_amount current_price stop_loss_pct
       take_profit_pct =
     try_except
       (if current_price = 0 then raise (mk_exn ZeroDivisionError ''float division by zero'')
        else
          (let qty = risk_amount / current_price;
               stop_loss_price = calculate_stop_loss current_price stop_loss_pct (Side sd);
               take_profit_price = calculate_take_profit current_price take_profit_pct (Side sd)
           in await (validate_balance X symb sd None None (Some risk_amount)) (\<lambda>ok.
                if \<not> ok
                then raise (mk_exn InsufficientBalanceError
                              ''Insufficient balance for strategy order'')
                else
                  await (place_market_order X symb sd risk_amount) (\<lambda>main_order.
                    let executed = executed_quantity main_order;
                        opposite_side = (if sd = BUY then SELL else BUY)
                    in
                    await (create_task
                             (StopLossTask symb opposite_side executed stop_loss_price)) (\<lambda>_.
                    await (create_task
                             (LimitTask symb opposite_side executed take_profit_price)) (\<lambda>_.
                    await (gather schedule
                             (place_stop_loss_order_task X symb opposite_side executed
                                stop_loss_price)
                             (place_limit_order_task X symb opposite_side executed
                                take_profit_price))
                      (\<lambda>(stop_order, take_profit_order).
                         return \<lparr>res_main_order = main_order,
                                  res_stop_loss_order = stop_order,
                                  res_take_profit_order = take_profit_order,
                                  res_entry_price = current_price,
                                  res_stop_loss_price = stop_loss_price,
                                  res_take_profit_price = take_profit_price,
                                  res_executed_quantity = executed,
                                  res_risk_amount = risk_amount\<rparr>)))))))
       (\<lambda>e. raise (mk_exn OrderError (''Strategy order failed: '' @ str_exn e)))"

subsection \<open>Reading a run of the service\<close>

definition stop_loss_params :: "string \<Rightarrow> OrderSide \<Rightarrow> real \<Rightarrow> real \<Rightarrow> order_params" where
  \<comment> \<open>the request that \<^verbatim>\<open>place_stop_loss_order\<close> hands to the client\<close>
  "stop_loss_params symb sd qty stop_price =
     \<lparr>p_symbol = symb, p_side = sd, p_type = STOP_LOSS, p_quantity = Some qty, p_price = None,
      quoteOrderQty = None, stopPrice = Some stop_price, timeInForce = None\<rparr>"

definition limit_params :: "string \<Rightarrow> OrderSide \<Rightarrow> real \<Rightarrow> real \<Rightarrow> order_params" where
  \<comment> \<open>the request that \<^verbatim>\<open>place_limit_order\<close> hands to the client\<close>
  "limit_params symb sd qty prc =
     \<lparr>p_symbol = symb, p_side = sd, p_type = LIMIT, p_quantity = Some qty, p_price = Some prc,
      quoteOrderQty = None, stopPrice = None, timeInForce = Some ''GTC''\<rparr>"

fun place_requests :: "event list \<Rightarrow> order_params list" where
  \<comment> \<open>the order-placement requests sent to the client, returned or not\<close>
  "place_requests [] = []"
| "place_requests (Call (PlaceOrder p) r # es) = p # place_requests es"
| "place_requests (e # es) = place_requests es"

fun sleeps :: "event list \<Rightarrow> real list" where
  "sleeps [] = []"
| "sleeps (Sleep d # es) = d # sleeps es"
| "sleeps (e # es) = sleeps es"

fun balance_requests :: "event list \<Rightarrow> string list" where
  "balance_requests [] = []"
| "balance_requests (Call (GetBalance a) r # es) = a # balance_requests es"
| "balance_requests (e # es) = balance_requests es"

fun lock_scan :: "bool \<Rightarrow> event list \<Rightarrow> bool option" where
  \<comment> \<open>follows the lock through a run, from whether it is held at the start: \<open>None\<close> when
      a request is sent to the client while the lock is not held, otherwise whether the
      lock is held at the end\<close>
  "lock_scan held [] = Some held"
| "lock_scan held (LockAcquire # es) = lock_scan True es"
| "lock_scan held (LockRelease # es) = lock_scan False es"
| "lock_scan held (Call c r # es) = (if held then lock_scan held es else None)"
| "lock_scan held (e # es) = lock_scan held es"

fun lock_events :: "event list \<Rightarrow> event list" where
  \<comment> \<open>the takings and releases of the lock in a run\<close>
  "lock_events [] = []"
| "lock_events (LockAcquire # es) = LockAcquire # lock_events es"
| "lock_events (LockRelease # es) = LockRelease # lock_events es"
| "lock_events (e # es) = lock_events es"

subsection \<open>Exchanges to run the service against\<close>

definition demo_order :: "order_params \<Rightarrow> nat \<Rightarrow> Order" where
  "demo_order p n =
     \<lparr>symbol = p_symbol p, order_id = int n, client_order_id = ''demo'', side = p_side p,
      type = p_type p, status = FILLED,
      quantity = (case p_quantity p of Some q \<Rightarrow> q | None \<Rightarrow> 1 / 500),
      price = p_price p, executed_quantity = 1 / 500, quote_quantity = 100, timestamp = 0\<rparr>"

definition demo_exchange :: "real \<Rightarrow> nat exchange" where
  \<comment> \<open>every asset has the given free balance; every order is filled; the state counts the calls\<close>
  "demo_exchange funds =
     \<lparr>x_get_balance = (\<lambda>a g. (Inr (Some \<lparr>asset = a, free = funds, locked = 0\<rparr>), Suc g)),
      x_get_price = (\<lambda>s g. (Inr 50000, Suc g)),
      x_place_order = (\<lambda>p g. (Inr (demo_order p g), Suc g)),
      x_cancel_order = (\<lambda>s oid g. (Inr (demo_order
          \<lparr>p_symbol = s, p_side = BUY, p_type = LIMIT, p_quantity = None, p_price = None,
           quoteOrderQty = None, stopPrice = None, timeInForce = None\<rparr> (nat oid)), Suc g))\<rparr>"

definition recovering_exchange :: "nat exchange" where
  \<comment> \<open>as \<open>demo_exchange 1000\<close>, but the first call finds the balance at zero\<close>
  "recovering_exchange =
     (demo_exchange 1000)
       \<lparr>x_get_balance :=
          (\<lambda>a g. (Inr (Some \<lparr>asset = a, free = (if g = 0 then 0 else 1000), locked = 0\<rparr>), Suc g))\<rparr>"

definition late_exchange :: "nat exchange" where
  \<comment> \<open>as \<open>demo_exchange 1000\<close>, but the first three calls find the balance at zero\<close>
  "late_exchange =
     (demo_exchange 1000)
       \<lparr>x_get_balance :=
          (\<lambda>a g. (Inr (Some \<lparr>asset = a, free = (if g < 3 then 0 else 1000), locked = 0\<rparr>), Suc g))\<rparr>"

definition down_exchange :: "nat exchange" where
  \<comment> \<open>every request fails\<close>
  "down_exchange =
     \<lparr>x_get_balance = (\<lambda>a g. (Inl (mk_exn ConnectionError ''Connection failed''), Suc g)),
      x_get_price = (\<lambda>s g. (Inl (mk_exn ConnectionError ''Connection failed''), Suc g)),
      x_place_order = (\<lambda>p g. (Inl (mk_exn ConnectionError ''Connection failed''), Suc g)),
      x_cancel_order = (\<lambda>s oid g. (Inl (mk_exn ConnectionError ''Connection failed''), Suc g))\<rparr>"

definition service_with_order :: "nat TradingService" where
  \<comment> \<open>a service that tracks one active order, with id 7\<close>
  "service_with_order =
     (TradingService_init 0)
       \<lparr>active_orders := [7 \<mapsto> demo_order (limit_params ''BTCUSDT'' SELL (1 / 500) 52000) 7]\<rparr>"

section \<open>core/client.py: the retry loop of \_request\<close>










section \<open>strategies/simple\_ma\_strategy.py\<close>

text \<open>
  The periods are configuration integers; the embedding takes them as natural numbers. The
  moving averages of a period of zero divide by zero, which is an exception of the update.
  \<^verbatim>\<open>last_crossover_time\<close> is a \<^verbatim>\<open>datetime\<close> or \<^verbatim>\<open>None\<close>; a \<^verbatim>\<open>datetime\<close> is
  always true, so only \<open>None\<close> is false in the rate limit.
\<close>

record strategy_config =
  require_volume_confirmation :: bool
  require_trend_confirmation :: bool
  require_price_action_confirmation :: bool
  trend_confirmation_period :: nat

record SimpleMAStrategy =
  config :: strategy_config
  short_period :: nat
  long_period :: nat
  last_short_ma :: real
  last_long_ma :: real
  current_short_ma :: real
  current_long_ma :: real
  price_history :: "real list"
  max_history :: nat
  ma_cache :: "(real \<times> real) AsyncCache"
  crossover_detected :: bool
  last_crossover_time :: "real option"
  min_crossover_interval :: real

definition SimpleMAStrategy_init :: "strategy_config \<Rightarrow> nat \<Rightarrow> nat \<Rightarrow> real \<Rightarrow> SimpleMAStrategy" where
  \<comment> \<open>\<^verbatim>\<open>__init__\<close>, with the periods and the interval read from the configuration\<close>
  "SimpleMAStrategy_init cfg short long interval =
     \<lparr>config = cfg, short_period = short, long_period = long,
      last_short_ma = 0, last_long_ma = 0, current_short_ma = 0, current_long_ma = 0,
      price_history = [], max_history = max short long * 2,
      ma_cache = AsyncCache_init 10,
      crossover_detected = False, last_crossover_time = None,
      min_crossover_interval = interval\<rparr>"

definition store_previous :: "SimpleMAStrategy \<Rightarrow> SimpleMAStrategy" where
  \<comment> \<open>\<^verbatim>\<open>self.last_short_ma = self.current_short_ma\<close> and the same for the long average\<close>
  "store_previous st =
     st\<lparr>last_short_ma := current_short_ma st, last_long_ma := current_long_ma st\<rparr>"

definition calculate_short_ma :: "SimpleMAStrategy \<Rightarrow> (exn + unit) \<times> SimpleMAStrategy" where
  \<comment> \<open>\<^verbatim>\<open>if len(self.price_history) >= self.short_period:\<close> the mean of the last
      \<^verbatim>\<open>short_period\<close> prices\<close>
  "calculate_short_ma st =
     (if length (price_history st) \<ge> short_period st
      then (if short_period st = 0
            then (Inl (mk_exn ZeroDivisionError
                        (if price_history st = [] then ''division by zero''
                         else ''float division by zero'')), st)
            else (Inr (),
                  st\<lparr>current_short_ma :=
                        sum_list (last_slice (short_period st) (price_history st))
                          / real (short_period st)\<rparr>))
      else (Inr (), st))"

definition calculate_long_ma :: "SimpleMAStrategy \<Rightarrow> (exn + unit) \<times> SimpleMAStrategy" where
  "calculate_long_ma st =
     (if length (price_history st) \<ge> long_period st
      then (if long_period st = 0
            then (Inl (mk_exn ZeroDivisionError
                        (if price_history st = [] then ''division by zero''
                         else ''float division by zero'')), st)
            else (Inr (),
                  st\<lparr>current_long_ma :=
                        sum_list (last_slice (long_period st) (price_history st))
                          / real (long_period st)\<rparr>))
      else (Inr (), st))"

definition cache_results :: "string \<Rightarrow> real \<Rightarrow> SimpleMAStrategy \<Rightarrow> SimpleMAStrategy" where
  \<comment> \<open>\<^verbatim>\<open>await self._ma_cache.set(cache_key, (self.current_short_ma, self.current_long_ma))\<close>\<close>
  "cache_results cache_key t_set st =
     st\<lparr>ma_cache := cache_set cache_key (current_short_ma st, current_long_ma st) t_set
                        (ma_cache st)\<rparr>"

definition update_moving_averages ::
  "real \<Rightarrow> real \<Rightarrow> SimpleMAStrategy \<Rightarrow> (exn + unit) \<times> SimpleMAStrategy" where
  \<comment> \<open>\<^verbatim>\<open>_update_moving_averages\<close>; the clock is read once by the cache lookup and once by the
      cache store. A cached pair is a tuple of two floats, which is always true.\<close>
  "update_moving_averages t_get t_set st =
     (let cache_key = ''ma_'' @ str_nat (length (price_history st))
      in case cache_get cache_key t_get (ma_cache st) of
           (Some (s, l), c) \<Rightarrow>
             (Inr (), (store_previous (st\<lparr>ma_cache := c\<rparr>))
                        \<lparr>current_short_ma := s, current_long_ma := l\<rparr>)
         | (None, c) \<Rightarrow>
             (case calculate_short_ma (store_previous (st\<lparr>ma_cache := c\<rparr>)) of
                (Inl e, st2) \<Rightarrow> (Inl e, st2)
              | (Inr _, st2) \<Rightarrow>
                  (case calculate_long_ma st2 of
                     (Inl e, st3) \<Rightarrow> (Inl e, st3)
                   | (Inr _, st3) \<Rightarrow> (Inr (), cache_results cache_key t_set st3))))"

definition on_price_update ::
  "real \<Rightarrow> real \<Rightarrow> real \<Rightarrow> SimpleMAStrategy \<Rightarrow> (exn + unit) \<times> SimpleMAStrategy" where
  "on_price_update p t_get t_set st =
     (let h1 = price_history st @ [p];
          h2 = (if length h1 > max_history st then last_slice (max_history st) h1 else h1);
          st1 = st\<lparr>price_history := h2\<rparr>
      in if length (price_history st1) \<ge> long_period st1
         then update_moving_averages t_get t_set st1
         else (Inr (), st1))"

definition load_initial_history :: "exn + real list \<Rightarrow> real \<Rightarrow> SimpleMAStrategy \<Rightarrow> SimpleMAStrategy" where
  \<comment> \<open>\<^verbatim>\<open>_load_initial_history\<close>: the close prices of the klines that the client returned, or,
      when it raised, the current price repeated\<close>
  "load_initial_history klines current_price st =
     (case klines of
        Inr closes \<Rightarrow> st\<lparr>price_history := closes\<rparr>
      | Inl e \<Rightarrow> st\<lparr>price_history := replicate (long_period st) current_price\<rparr>)"

definition on_start ::
  "exn + real list \<Rightarrow> real \<Rightarrow> real \<Rightarrow> real \<Rightarrow> SimpleMAStrategy
     \<Rightarrow> (exn + unit) \<times> SimpleMAStrategy" where
  "on_start klines current_price t_get t_set st =
     update_moving_averages t_get t_set (load_initial_history klines current_price st)"

text \<open>
  What an evaluation of the signal reads from outside: \<^verbatim>\<open>datetime.now()\<close> in the rate
  limit, \<^verbatim>\<open>datetime.now()\<close> when a crossover is stamped, and the volume of
  \<^verbatim>\<open>client.get_ticker\<close> (or its exception).
\<close>

record signal_env =
  now_check :: real
  now_stamp :: real
  ticker_volume :: "exn + real"

definition check_crossover_rate_limit :: "real \<Rightarrow> SimpleMAStrategy \<Rightarrow> bool" where
  "check_crossover_rate_limit now st =
     (case last_crossover_time st of
        None \<Rightarrow> False
      | Some t \<Rightarrow> now - t < min_crossover_interval st)"

definition check_volume_confirmation :: "exn + real \<Rightarrow> bool" where
  "check_volume_confirmation ticker = (case ticker of Inl e \<Rightarrow> True | Inr volume \<Rightarrow> volume > 0)"

definition check_trend_confirmation :: "string \<Rightarrow> SimpleMAStrategy \<Rightarrow> bool" where
  \<comment> \<open>a period of zero divides by zero, and the handler of the method returns \<^verbatim>\<open>True\<close>\<close>
  "check_trend_confirmation signal st =
     (let trend_period = trend_confirmation_period (config st)
      in if length (price_history st) < trend_period then True
         else if trend_period = 0 \<or> price_history st = [] then True
         else
           (let trend_ma = sum_list (last_slice trend_period (price_history st)) / real trend_period;
                current_price = last (price_history st)
            in if signal = ''BUY'' then current_price > trend_ma else current_price < trend_ma))"

definition check_price_action_confirmation :: "string \<Rightarrow> SimpleMAStrategy \<Rightarrow> bool" where
  "check_price_action_confirmation signal st =
     (if length (price_history st) < 3 then True
      else
        (let recent_prices = last_slice 3 (price_history st)
         in if signal = ''BUY''
            then recent_prices ! 2 > recent_prices ! 1 \<and> recent_prices ! 1 > recent_prices ! 0
            else recent_prices ! 2 < recent_prices ! 1 \<and> recent_prices ! 1 < recent_prices ! 0))"

definition confirm_signal :: "signal_env \<Rightarrow> string \<Rightarrow> SimpleMAStrategy \<Rightarrow> string option" where
  "confirm_signal env signal st =
     (if require_volume_confirmation (config st)
         \<and> \<not> check_volume_confirmation (ticker_volume env) then None
      else if require_trend_confirmation (config st)
         \<and> \<not> check_trend_confirmation signal st then None
      else if require_price_action_confirmation (config st)
         \<and> \<not> check_price_action_confirmation signal st then None
      else Some signal)"

definition generate_signal :: "signal_env \<Rightarrow> SimpleMAStrategy \<Rightarrow> string option \<times> SimpleMAStrategy" where
  "generate_signal env st =
     (if length (price_history st) < long_period st then (None, st)
      else if check_crossover_rate_limit (now_check env) st then (None, st)
      else if last_short_ma st \<le> last_long_ma st
              \<and> current_short_ma st > current_long_ma st
              \<and> last_short_ma st > 0
      then (let st' = st\<lparr>crossover_detected := True,
                          last_crossover_time := Some (now_stamp env)\<rparr>
            in (confirm_signal env ''BUY'' st', st'))
      else if last_short_ma st \<ge> last_long_ma st
              \<and> current_short_ma st < current_long_ma st
              \<and> last_short_ma st > 0
      then (let st' = st\<lparr>crossover_detected := True,
                          last_crossover_time := Some (now_stamp env)\<rparr>
            in (confirm_signal env ''SELL'' st', st'))
      else (None, st))"

text \<open>
  A run of price updates: each is a price with the two clock readings of its update. An
  update that raises leaves the state it had reached, as the handler of the event that
  delivers the price logs the exception and goes on.
\<close>

fun run_updates :: "(real \<times> real \<times> real) list \<Rightarrow> SimpleMAStrategy \<Rightarrow> SimpleMAStrategy" where
  "run_updates [] st = st"
| "run_updates ((p, t_get, t_set) # ups) st =
     run_updates ups (snd (on_price_update p t_get t_set st))"

definition ordering :: "SimpleMAStrategy \<Rightarrow> real" where
  \<comment> \<open>the order of the current pair: 1 when short is above long, 0 when they are equal,
      -1 when short is below long\<close>
  "ordering st = sgn (current_short_ma st - current_long_ma st)"

definition plain_config :: strategy_config where
  "plain_config =
     \<lparr>require_volume_confirmation = False, require_trend_confirmation = False,
      require_price_action_confirmation = False, trend_confirmation_period = 50\<rparr>"

definition quiet_env :: "real \<Rightarrow> signal_env" where
  "quiet_env now = \<lparr>now_check = now, now_stamp = now, ticker_volume = Inr 1\<rparr>"

definition started_strategy :: SimpleMAStrategy where
  \<comment> \<open>periods 1 and 2, debounce 300 seconds, started at time 0 on the history 100, 100\<close>
  "started_strategy =
     snd (on_start (Inr [100, 100]) 100 0 0 (SimpleMAStrategy_init plain_config 1 2 300))"

section \<open>Properties of the helpers\<close>

lemma upper_buy: "upper ''buy'' = ''BUY''"
  by code_simp

lemma upper_sell: "upper ''sell'' = ''SELL''"
  by code_simp

text \<open>
  C10. For every entry price and percentage, the stop loss of a BUY and the take profit of
  a SELL are both \<open>p \<cdot> (1 - pct)\<close>, and the stop loss of a SELL and the take profit of a
  BUY are both \<open>p \<cdot> (1 + pct)\<close>: the two helpers are duals under swapping the side. The
  same holds when the side is given as the string \<^verbatim>\<open>"buy"\<close> or \<^verbatim>\<open>"sell"\<close>.
\<close>

theorem stop_loss_take_profit_dual:
  "calculate_stop_loss p pct (Side BUY) = p * (1 - pct)
   \<and> calculate_take_profit p pct (Side SELL) = p * (1 - pct)
   \<and> calculate_stop_loss p pct (Side SELL) = p * (1 + pct)
   \<and> calculate_take_profit p pct (Side BUY) = p * (1 + pct)
   \<and> calculate_stop_loss p pct (SideStr ''buy'') = calculate_take_profit p pct (SideStr ''sell'')
   \<and> calculate_stop_loss p pct (SideStr ''sell'') = calculate_take_profit p pct (SideStr ''buy'')"
  by (simp add: calculate_stop_loss_def calculate_take_profit_def side_str_def
      upper_buy upper_sell)

text \<open>
  C8. A value stored under a key at time \<open>T\<close> is returned unchanged, and the cache left
  as it is, by a lookup at any time strictly before \<open>T + ttl\<close>; a lookup at or after
  \<open>T + ttl\<close> returns absent and removes the entry at that lookup. Nothing else removes
  it: a lookup of another key, at whatever time, leaves the entry in place.
\<close>

theorem cache_ttl:
  "(t < T + ttl c \<longrightarrow>
      cache_get k t (cache_set k v T c) = (Some v, cache_set k v T c))
   \<and> (T + ttl c \<le> t \<longrightarrow>
      cache_get k t (cache_set k v T c) = (None, c\<lparr>cache := (cache c)(k := None)\<rparr>))
   \<and> (k' \<noteq> k \<longrightarrow>
      cache (snd (cache_get k' t (cache_set k v T c))) k = Some (v, T))"
  by (auto simp add: cache_get_def cache_set_def split: option.splits)

theorem cache_ttl_witness:
  "cache_get ''ma_5'' 9 (cache_set ''ma_5'' (103::real) 0 (AsyncCache_init 10))
     = (Some 103, cache_set ''ma_5'' 103 0 (AsyncCache_init 10))
   \<and> fst (cache_get ''ma_5'' 10 (cache_set ''ma_5'' (103::real) 0 (AsyncCache_init 10))) = None
   \<and> cache (snd (cache_get ''ma_5'' 10 (cache_set ''ma_5'' (103::real) 0 (AsyncCache_init 10))))
        ''ma_5'' = None
   \<and> cache (snd (cache_get ''ma_6'' 99 (cache_set ''ma_5'' (103::real) 0 (AsyncCache_init 10))))
        ''ma_5'' = Some (103, 0)"
  using cache_ttl [of 9 0 "AsyncCache_init 10" "''ma_5''" "103::real" "''ma_6''"]
    cache_ttl [of 10 0 "AsyncCache_init 10" "''ma_5''" "103::real" "''ma_6''"]
    cache_ttl [of 99 0 "AsyncCache_init 10" "''ma_5''" "103::real" "''ma_6''"]
  by (simp add: AsyncCache_init_def)

section \<open>Properties of services/trading.py\<close>

subsection \<open>Evaluating a run\<close>

lemma py_range_3: "py_range 3 = [0, 1, 2]"
  by (simp add: py_range_def upt_rec)

lemma str_exn_mk_exn: "str_exn (mk_exn c m) = m"
  by (simp add: str_exn_def mk_exn_def)

lemma contains_usdt: "contains ''USDT'' ''BTCUSDT''"
  by code_simp

lemma replace_btc: "replace ''BUSD'' [] (replace ''USDT'' [] ''BTCUSDT'') = ''BTC''"
  by code_simp

lemmas run_defs = place_market_order_def place_limit_order_def place_stop_loss_order_def
  retry_async_def py_range_3 place_market_order_body_def place_limit_order_body_def
  place_stop_loss_order_body_def with_order_lock_def validate_balance_def try_except_def
  await_def return_def raise_def client_get_balance_def client_get_price_def
  client_cancel_order_def client_call_def emit_def Let_def truthy_def returned_def
  place_market_buy_def place_market_sell_def client_place_limit_order_def
  client_place_order_def track_order_def update_position_tracker_def
  TradingService_init_def str_exn_mk_exn contains_usdt replace_btc

subsection \<open>The balance check\<close>

lemma validate_balance_sell_quote_only:
  "fst (validate_balance X symb SELL None None (Some q) s) = Inr False"
  by (simp add: validate_balance_def try_except_def await_def return_def client_call_def
        client_get_balance_def Let_def truthy_def
      split: prod.splits sum.splits option.splits)

lemma validate_balance_shape:
  "\<exists>b g a r. validate_balance X symb sd qty prc quote_qty s
       = (Inr b, emit (Call (GetBalance a) r) (s\<lparr>client := g\<rparr>))"
proof -
  let ?a = "if sd = BUY then (if contains ''USDT'' symb then ''USDT'' else ''BUSD'')
            else replace ''BUSD'' [] (replace ''USDT'' [] symb)"
  obtain r g where x: "x_get_balance X ?a (client s) = (r, g)"
    by (cases "x_get_balance X ?a (client s)")
  have "\<exists>b. validate_balance X symb sd qty prc quote_qty s
       = (Inr b, emit (Call (GetBalance ?a) (returned r)) (s\<lparr>client := g\<rparr>))"
    using x
    by (cases r; cases sd)
       (auto simp add: validate_balance_def try_except_def await_def return_def client_call_def
        client_get_balance_def Let_def split: option.splits)
  then show ?thesis by blast
qed

text \<open>
  C6 (as amended). For a BUY whose quote asset has free balance \<open>Y\<close>: when the order
  names a non-zero quote amount \<open>X\<close>, the balance check allows it if and only if
  \<open>Y \<ge> X\<close>, the boundary \<open>Y = X\<close> included; when it names a non-zero quantity and a
  non-zero price instead, the amount required is their product. A zero amount counts as
  no amount, and the check then refuses whatever the balance.
\<close>

theorem validate_balance_buy:
  assumes "x_get_balance X (if contains ''USDT'' symb then ''USDT'' else ''BUSD'') (client s)
             = (Inr (Some b), g')"
  shows "(amount \<noteq> 0 \<longrightarrow>
            fst (validate_balance X symb BUY qty prc (Some amount) s) = Inr (amount \<le> free b))
       \<and> (q \<noteq> 0 \<and> p \<noteq> 0 \<longrightarrow>
            fst (validate_balance X symb BUY (Some q) (Some p) None s) = Inr (q * p \<le> free b))
       \<and> fst (validate_balance X symb BUY None None (Some 0) s) = Inr False"
  using assms
  by (simp add: validate_balance_def try_except_def await_def return_def client_get_balance_def
        client_call_def truthy_def Let_def)

theorem validate_balance_buy_witness:
  "fst (validate_balance (demo_exchange 100) ''BTCUSDT'' BUY None None (Some 100)
          (TradingService_init 0)) = Inr True
   \<and> fst (validate_balance (demo_exchange 100) ''BTCUSDT'' BUY None None (Some 150)
          (TradingService_init 0)) = Inr False
   \<and> fst (validate_balance (demo_exchange 100) ''BTCUSDT'' BUY (Some (1 / 500)) (Some 50000) None
          (TradingService_init 0)) = Inr True"
proof -
  have h: "x_get_balance (demo_exchange 100)
             (if contains ''USDT'' ''BTCUSDT'' then ''USDT'' else ''BUSD'')
             (client (TradingService_init 0))
           = (Inr (Some \<lparr>asset = ''USDT'', free = 100, locked = 0\<rparr>), 1)"
    by (simp add: demo_exchange_def TradingService_init_def contains_usdt)
  show ?thesis
    using validate_balance_buy [OF h, of 100 None None "1 / 500" 50000]
      validate_balance_buy [OF h, of 150 None None "1 / 500" 50000]
    by simp
qed

theorem validate_balance_zero_amount:
  "fst (validate_balance (demo_exchange 5) ''BTCUSDT'' BUY None None (Some 0)
          (TradingService_init 0)) = Inr False
   \<and> (0::real) \<le> free \<lparr>asset = ''USDT'', free = 5, locked = 0\<rparr>"
  by (simp add: run_defs demo_exchange_def)

subsection \<open>Cancelling an order\<close>

text \<open>
  C9. \<^verbatim>\<open>cancel_order\<close> never raises. When the client's cancellation returns, it returns
  \<^verbatim>\<open>True\<close> and the order id is no longer in the active orders; when the client's
  cancellation raises any exception, it returns \<^verbatim>\<open>False\<close> and the active orders are
  as before.
\<close>

theorem cancel_order_total:
  "(\<exists>b. fst (cancel_order X symb oid s) = Inr b)
   \<and> (\<forall>ord g'. x_cancel_order X symb oid (client s) = (Inr ord, g') \<longrightarrow>
         fst (cancel_order X symb oid s) = Inr True
         \<and> active_orders (snd (cancel_order X symb oid s)) = (active_orders s)(oid := None))
   \<and> (\<forall>e g'. x_cancel_order X symb oid (client s) = (Inl e, g') \<longrightarrow>
         fst (cancel_order X symb oid s) = Inr False
         \<and> active_orders (snd (cancel_order X symb oid s)) = active_orders s)"
  by (cases "x_cancel_order X symb oid (client s)";
      cases "fst (x_cancel_order X symb oid (client s))")
     (auto simp add: cancel_order_def try_except_def await_def return_def client_cancel_order_def
       client_call_def emit_def)

theorem cancel_order_total_witness:
  "fst (cancel_order (demo_exchange 1000) ''BTCUSDT'' 7 service_with_order) = Inr True
   \<and> active_orders (snd (cancel_order (demo_exchange 1000) ''BTCUSDT'' 7 service_with_order)) 7
        = None
   \<and> fst (cancel_order down_exchange ''BTCUSDT'' 7 service_with_order) = Inr False
   \<and> active_orders (snd (cancel_order down_exchange ''BTCUSDT'' 7 service_with_order))
        = active_orders service_with_order
   \<and> active_orders service_with_order 7 \<noteq> None"
  using cancel_order_total [of "demo_exchange 1000" "''BTCUSDT''" 7 service_with_order]
        cancel_order_total [of down_exchange "''BTCUSDT''" 7 service_with_order]
  by (simp add: demo_exchange_def down_exchange_def TradingService_init_def
        service_with_order_def)

subsection \<open>One attempt of each placement\<close>

lemma market_body_insufficient:
  assumes "validate_balance X symb sd None None (Some q) (emit LockAcquire s) = (Inr False, s1)"
  shows "place_market_order_body X symb sd q s =
     (Inl (mk_exn OrderError (''Market order failed: Insufficient balance for ''
            @ OrderSide_value sd @ '' order'')), emit LockRelease s1)"
  using assms
  by (simp add: place_market_order_body_def with_order_lock_def try_except_def await_def
       raise_def str_exn_mk_exn)

lemma market_body_sufficient:
  assumes v: "validate_balance X symb sd None None (Some q) (emit LockAcquire s) = (Inr True, s1)"
      and x: "x_place_order X \<lparr>p_symbol = symb, p_side = BUY, p_type = MARKET, p_quantity = None,
                     p_price = None, quoteOrderQty = Some q, stopPrice = None,
                     timeInForce = None\<rparr> (client s1) = (r, g)"
  shows "sd = BUY"
    and "place_market_order_body X symb sd q s =
      (case r of
         Inl e \<Rightarrow> (Inl (mk_exn OrderError (''Market order failed: '' @ str_exn e)),
                  emit LockRelease (emit (Call (PlaceOrder \<lparr>p_symbol = symb, p_side = BUY,
                     p_type = MARKET, p_quantity = None,
                     p_price = None, quoteOrderQty = Some q, stopPrice = None,
                     timeInForce = None\<rparr>) False) (s1\<lparr>client := g\<rparr>)))
       | Inr order \<Rightarrow> (Inr order,
                  emit LockRelease (snd (update_position_tracker symb order (snd (track_order order
                    (emit (Call (PlaceOrder \<lparr>p_symbol = symb, p_side = BUY, p_type = MARKET,
                     p_quantity = None,
                     p_price = None, quoteOrderQty = Some q, stopPrice = None,
                     timeInForce = None\<rparr>) True) (s1\<lparr>client := g\<rparr>))))))))"
proof -
  show buy: "sd = BUY"
  proof (rule ccontr)
    assume "sd \<noteq> BUY"
    then have "sd = SELL" by (cases sd) auto
    with v validate_balance_sell_quote_only [of X symb q "emit LockAcquire s"]
    show False by simp
  qed
  show "place_market_order_body X symb sd q s = (case r of
         Inl e \<Rightarrow> (Inl (mk_exn OrderError (''Market order failed: '' @ str_exn e)),
                  emit LockRelease (emit (Call (PlaceOrder \<lparr>p_symbol = symb, p_side = BUY,
                     p_type = MARKET, p_quantity = None,
                     p_price = None, quoteOrderQty = Some q, stopPrice = None,
                     timeInForce = None\<rparr>) False) (s1\<lparr>client := g\<rparr>)))
       | Inr order \<Rightarrow> (Inr order,
                  emit LockRelease (snd (update_position_tracker symb order (snd (track_order order
                    (emit (Call (PlaceOrder \<lparr>p_symbol = symb, p_side = BUY, p_type = MARKET,
                     p_quantity = None,
                     p_price = None, quoteOrderQty = Some q, stopPrice = None,
                     timeInForce = None\<rparr>) True) (s1\<lparr>client := g\<rparr>))))))))"
    using v x buy
    by (cases r)
       (simp_all add: place_market_order_body_def with_order_lock_def try_except_def await_def
         raise_def return_def str_exn_mk_exn place_market_buy_def client_place_order_def
         client_call_def returned_def track_order_def update_position_tracker_def Let_def)
qed

lemma limit_body_unfold:
  assumes v: "validate_balance X symb sd (Some qty) (Some prc) None (emit LockAcquire s) = (Inr b, s1)"
      and x: "x_place_order X (limit_params symb sd qty prc) (client s1) = (r, g)"
  shows "place_limit_order_body X symb sd qty prc s =
     (if \<not> b
      then (Inl (mk_exn OrderError (''Limit order failed: Insufficient balance for ''
                  @ OrderSide_value sd @ '' order'')), emit LockRelease s1)
      else (case r of
              Inl e \<Rightarrow> (Inl (mk_exn OrderError (''Limit order failed: '' @ str_exn e)),
                  emit LockRelease (emit (Call (PlaceOrder (limit_params symb sd qty prc)) False)
                                      (s1\<lparr>client := g\<rparr>)))
            | Inr order \<Rightarrow> (Inr order,
                  emit LockRelease (snd (track_order order
                    (emit (Call (PlaceOrder (limit_params symb sd qty prc)) True)
                       (s1\<lparr>client := g\<rparr>)))))))"
  using v x
  by (cases b; cases r)
     (simp_all add: place_limit_order_body_def with_order_lock_def try_except_def await_def
        raise_def return_def str_exn_mk_exn client_place_limit_order_def client_place_order_def
        client_call_def returned_def track_order_def Let_def limit_params_def)

lemma stop_loss_body_unfold:
  assumes x: "x_place_order X (stop_loss_params symb sd qty sp) (client s) = (r, g)"
  shows "place_stop_loss_order_body X symb sd qty sp s =
     (case r of
        Inl e \<Rightarrow> (Inl (mk_exn OrderError (''Stop loss order failed: '' @ str_exn e)),
                   emit (Call (PlaceOrder (stop_loss_params symb sd qty sp)) False)
                     (s\<lparr>client := g\<rparr>))
      | Inr order \<Rightarrow> (Inr order,
                   snd (track_order order
                     (emit (Call (PlaceOrder (stop_loss_params symb sd qty sp)) True)
                        (s\<lparr>client := g\<rparr>)))))"
  using x
  by (cases r)
     (simp_all add: place_stop_loss_order_body_def try_except_def await_def
        raise_def return_def client_place_order_def
        client_call_def returned_def track_order_def Let_def stop_loss_params_def)

lemma events_track_order: "events (snd (track_order order s)) = events s"
  by (simp add: track_order_def)

lemma events_update_position_tracker:
  "events (snd (update_position_tracker symb order s)) = events s"
  by (simp add: update_position_tracker_def Let_def)

text \<open>
  What one attempt adds to the run: a market or a limit attempt takes the lock, asks for
  the balance, sends at most one placement and releases the lock; a stop-loss attempt
  sends its placement and nothing else.
\<close>

lemma market_body_events:
  "\<exists>a r mid. events (snd (place_market_order_body X symb sd q s))
       = events s @ [LockAcquire, Call (GetBalance a) r] @ mid @ [LockRelease]
     \<and> (mid = [] \<or> (\<exists>p ok. mid = [Call (PlaceOrder p) ok]))"
proof -
  obtain b g a r where v: "validate_balance X symb sd None None (Some q) (emit LockAcquire s)
       = (Inr b, emit (Call (GetBalance a) r) ((emit LockAcquire s)\<lparr>client := g\<rparr>))"
    using validate_balance_shape [of X symb sd None None "Some q" "emit LockAcquire s"] by auto
  let ?s1 = "emit (Call (GetBalance a) r) ((emit LockAcquire s)\<lparr>client := g\<rparr>)"
  let ?p = "\<lparr>p_symbol = symb, p_side = BUY, p_type = MARKET, p_quantity = None,
                     p_price = None, quoteOrderQty = Some q, stopPrice = None,
                     timeInForce = None\<rparr>"
  obtain r2 g2 where x: "x_place_order X ?p (client ?s1) = (r2, g2)"
    by (cases "x_place_order X ?p (client ?s1)")
  show ?thesis
  proof (cases b)
    case False
    with v market_body_insufficient [of X symb sd q s ?s1]
    have "events (snd (place_market_order_body X symb sd q s))
            = events s @ [LockAcquire, Call (GetBalance a) r] @ [] @ [LockRelease]"
      by (simp add: emit_def)
    then show ?thesis by blast
  next
    case True
    with v x market_body_sufficient(2) [of X symb sd q s ?s1 r2 g2]
    have "events (snd (place_market_order_body X symb sd q s))
            = events s @ [LockAcquire, Call (GetBalance a) r]
                @ [Call (PlaceOrder ?p) (returned r2)] @ [LockRelease]"
      by (cases r2)
         (simp_all add: emit_def events_track_order events_update_position_tracker returned_def)
    then show ?thesis by blast
  qed
qed

lemma limit_body_events:
  "\<exists>a r mid. events (snd (place_limit_order_body X symb sd qty prc s))
       = events s @ [LockAcquire, Call (GetBalance a) r] @ mid @ [LockRelease]
     \<and> (mid = [] \<or> (\<exists>p ok. mid = [Call (PlaceOrder p) ok]))"
proof -
  obtain b g a r where v: "validate_balance X symb sd (Some qty) (Some prc) None (emit LockAcquire s)
       = (Inr b, emit (Call (GetBalance a) r) ((emit LockAcquire s)\<lparr>client := g\<rparr>))"
    using validate_balance_shape [of X symb sd "Some qty" "Some prc" None "emit LockAcquire s"]
    by auto
  let ?s1 = "emit (Call (GetBalance a) r) ((emit LockAcquire s)\<lparr>client := g\<rparr>)"
  obtain r2 g2 where x: "x_place_order X (limit_params symb sd qty prc) (client ?s1) = (r2, g2)"
    by (cases "x_place_order X (limit_params symb sd qty prc) (client ?s1)")
  show ?thesis
  proof (cases b)
    case False
    with limit_body_unfold [OF v x]
    have "events (snd (place_limit_order_body X symb sd qty prc s))
            = events s @ [LockAcquire, Call (GetBalance a) r] @ [] @ [LockRelease]"
      by (simp add: emit_def)
    then show ?thesis by blast
  next
    case True
    with limit_body_unfold [OF v x]
    have "events (snd (place_limit_order_body X symb sd qty prc s))
            = events s @ [LockAcquire, Call (GetBalance a) r]
                @ [Call (PlaceOrder (limit_params symb sd qty prc)) (returned r2)]
                @ [LockRelease]"
      by (cases r2) (simp_all add: emit_def events_track_order returned_def)
    then show ?thesis by blast
  qed
qed

lemma stop_loss_body_events:
  "\<exists>ok. events (snd (place_stop_loss_order_body X symb sd qty sp s))
       = events s @ [Call (PlaceOrder (stop_loss_params symb sd qty sp)) ok]"
proof -
  obtain r g where x: "x_place_order X (stop_loss_params symb sd qty sp) (client s) = (r, g)"
    by (cases "x_place_order X (stop_loss_params symb sd qty sp) (client s)")
  have "events (snd (place_stop_loss_order_body X symb sd qty sp s))
       = events s @ [Call (PlaceOrder (stop_loss_params symb sd qty sp)) (returned r)]"
    using stop_loss_body_unfold [OF x]
    by (cases r) (simp_all add: emit_def events_track_order returned_def)
  then show ?thesis by blast
qed

subsection \<open>The lock\<close>

lemma lock_scan_append:
  "lock_scan h (xs @ ys) = (case lock_scan h xs of None \<Rightarrow> None | Some h' \<Rightarrow> lock_scan h' ys)"
  by (induction h xs rule: lock_scan.induct) simp_all

lemma lock_events_append: "lock_events (xs @ ys) = lock_events xs @ lock_events ys"
  by (induction xs rule: lock_events.induct) simp_all

lemma market_body_lock:
  assumes "lock_scan False (events s) = Some False"
  shows "lock_scan False (events (snd (place_market_order_body X symb sd q s))) = Some False"
  using market_body_events [of X symb sd q s] assms
  by (auto simp add: lock_scan_append)

lemma limit_body_lock:
  assumes "lock_scan False (events s) = Some False"
  shows "lock_scan False (events (snd (place_limit_order_body X symb sd qty prc s))) = Some False"
  using limit_body_events [of X symb sd qty prc s] assms
  by (auto simp add: lock_scan_append)

lemma stop_loss_body_lock_events:
  "lock_events (events (snd (place_stop_loss_order_body X symb sd qty sp s)))
     = lock_events (events s)"
  using stop_loss_body_events [of X symb sd qty sp s]
  by (auto simp add: lock_events_append)

lemma retry_loop_lock:
  assumes body: "\<And>t. lock_scan False (events t) = Some False
                  \<Longrightarrow> lock_scan False (events (snd (func t))) = Some False"
      and start: "lock_scan False (events s) = Some False"
  shows "lock_scan False (events (snd (retry_loop mr d bf func atts lst s))) = Some False"
  using start
proof (induction atts arbitrary: lst s)
  case Nil
  then show ?case by (simp split: option.splits)
next
  case (Cons attempt rest)
  have f: "lock_scan False (events (snd (func s))) = Some False"
    using body Cons.prems by blast
  show ?case
  proof (cases "func s")
    case (Pair r s')
    with f have s': "lock_scan False (events s') = Some False" by simp
    show ?thesis
    proof (cases r)
      case (Inl e)
      have "lock_scan False
              (events (if int attempt < mr - 1 then emit (Sleep (d * bf ^ attempt)) s' else s'))
            = Some False"
        using s' by (simp add: emit_def lock_scan_append)
      from Cons.IH [OF this] show ?thesis
        using Pair Inl by simp
    next
      case (Inr a)
      then show ?thesis using Pair s' by simp
    qed
  qed
qed

lemma retry_loop_lock_events:
  assumes body: "\<And>t. lock_events (events (snd (func t))) = lock_events (events t)"
  shows "lock_events (events (snd (retry_loop mr d bf func atts lst s))) = lock_events (events s)"
proof (induction atts arbitrary: lst s)
  case Nil
  then show ?case by (simp split: option.splits)
next
  case (Cons attempt rest)
  show ?case
  proof (cases "func s")
    case (Pair r s')
    with body [of s] have s': "lock_events (events s') = lock_events (events s)" by simp
    show ?thesis
    proof (cases r)
      case (Inl e)
      have "lock_events
              (events (if int attempt < mr - 1 then emit (Sleep (d * bf ^ attempt)) s' else s'))
            = lock_events (events s)"
        using s' by (simp add: emit_def lock_events_append)
      with Cons.IH [of "Some e"
          "if int attempt < mr - 1 then emit (Sleep (d * bf ^ attempt)) s' else s'"]
      show ?thesis
        using Pair Inl by simp
    next
      case (Inr a)
      then show ?thesis using Pair s' by simp
    qed
  qed
qed

text \<open>
  \<^verbatim>\<open>place_market_order\<close> and \<^verbatim>\<open>place_limit_order\<close> send every request to the client
  while they hold the order lock of the service, and leave the lock free: each attempt
  takes the lock, checks the balance, sends its placement, does its bookkeeping and
  releases the lock. \<^verbatim>\<open>place_stop_loss_order\<close> neither takes nor releases the lock.
\<close>

lemma market_and_limit_orders_hold_lock:
  assumes "lock_scan False (events s) = Some False"
  shows "lock_scan False (events (snd (place_market_order X symb sd q s))) = Some False"
    and "lock_scan False (events (snd (place_limit_order X symb sd qty prc s))) = Some False"
proof -
  show "lock_scan False (events (snd (place_market_order X symb sd q s))) = Some False"
    unfolding place_market_order_def retry_async_def
    using assms by (rule retry_loop_lock [rotated]) (rule market_body_lock)
  show "lock_scan False (events (snd (place_limit_order X symb sd qty prc s))) = Some False"
    unfolding place_limit_order_def retry_async_def
    using assms by (rule retry_loop_lock [rotated]) (rule limit_body_lock)
qed

lemma stop_loss_order_lock_events:
  "lock_events (events (snd (place_stop_loss_order X symb sd qty sp s)))
     = lock_events (events s)"
  unfolding place_stop_loss_order_def retry_async_def
  by (rule retry_loop_lock_events) (rule stop_loss_body_lock_events)

text \<open>
  C2. The claim fails on \<^verbatim>\<open>place_stop_loss_order\<close>: the call
  \<^verbatim>\<open>place_stop_loss_order('BTCUSDT', OrderSide.SELL, 0.002, 49000.0)\<close> on a fresh service,
  against an exchange that accepts the order, consists of the one placement request, sent
  while the order lock is not held; the lock is neither taken before it nor released after.
\<close>

theorem stop_loss_order_outside_lock:
  "events (snd (place_stop_loss_order (demo_exchange 1000) ''BTCUSDT'' SELL (1 / 500) 49000
                  (TradingService_init 0)))
     = [Call (PlaceOrder (stop_loss_params ''BTCUSDT'' SELL (1 / 500) 49000)) True]
   \<and> lock_scan False (events (snd (place_stop_loss_order (demo_exchange 1000) ''BTCUSDT'' SELL
                  (1 / 500) 49000 (TradingService_init 0)))) = None"
  by (simp add: run_defs demo_exchange_def stop_loss_params_def)

subsection \<open>Retrying a placement\<close>

lemma place_requests_append: "place_requests (xs @ ys) = place_requests xs @ place_requests ys"
  by (induction xs rule: place_requests.induct) simp_all

lemma sleeps_append: "sleeps (xs @ ys) = sleeps xs @ sleeps ys"
  by (induction xs rule: sleeps.induct) simp_all

lemma balance_requests_append:
  "balance_requests (xs @ ys) = balance_requests xs @ balance_requests ys"
  by (induction xs rule: balance_requests.induct) simp_all

lemma market_body_refused:
  assumes "fst (validate_balance X symb sd None None (Some q) (emit LockAcquire s)) = Inr False"
  shows "\<exists>a r s'. place_market_order_body X symb sd q s =
           (Inl (mk_exn OrderError (''Market order failed: Insufficient balance for ''
                  @ OrderSide_value sd @ '' order'')), s')
         \<and> events s' = events s @ [LockAcquire, Call (GetBalance a) r, LockRelease]"
proof -
  obtain b g a r where v: "validate_balance X symb sd None None (Some q) (emit LockAcquire s)
       = (Inr b, emit (Call (GetBalance a) r) ((emit LockAcquire s)\<lparr>client := g\<rparr>))"
    using validate_balance_shape [of X symb sd None None "Some q" "emit LockAcquire s"] by auto
  with assms have "\<not> b" by simp
  with v market_body_insufficient [of X symb sd q s
      "emit (Call (GetBalance a) r) ((emit LockAcquire s)\<lparr>client := g\<rparr>)"]
  show ?thesis
    by (simp add: emit_def)
qed

text \<open>
  C1 (as amended). An attempt of \<^verbatim>\<open>place_market_order\<close> whose balance check finds the free
  balance insufficient sends no order-placement request and fails with an order error that
  wraps the insufficient-balance error. The retry decorator then runs the next attempt, as
  after any other failure: the call sleeps 1 second and makes a second attempt, whose order
  is the order of the call when it returns one; otherwise the call sleeps 2 seconds and
  makes a third attempt, whose outcome is the outcome of the call. Here \<open>(r1, s1)\<close>,
  \<open>(r2, s2)\<close> and \<open>(r3, s3)\<close> name what the three attempts give, each run from the
  state that the one before it left. A call whose balance check is refused at each of its
  three attempts checks the balance three times, sends no order-placement request and
  fails with that order error.
\<close>

theorem insufficient_balance_attempts:
  assumes first: "place_market_order_body X symb sd q s = (r1, s1)"
      and second: "place_market_order_body X symb sd q (emit (Sleep 1) s1) = (r2, s2)"
      and third: "place_market_order_body X symb sd q (emit (Sleep 2) s2) = (r3, s3)"
      and refused:
        "fst (validate_balance X symb sd None None (Some q) (emit LockAcquire s)) = Inr False"
  shows "r1 = Inl (mk_exn OrderError (''Market order failed: Insufficient balance for ''
                     @ OrderSide_value sd @ '' order''))
     \<and> place_requests (events s1) = place_requests (events s)
     \<and> place_market_order X symb sd q s = (if returned r2 then (r2, s2) else (r3, s3))
     \<and> (fst (validate_balance X symb sd None None (Some q)
                (emit LockAcquire (emit (Sleep 1) s1))) = Inr False
          \<and> fst (validate_balance X symb sd None None (Some q)
                (emit LockAcquire (emit (Sleep 2) s2))) = Inr False \<longrightarrow>
         place_market_order X symb sd q s =
           (Inl (mk_exn OrderError (''Market order failed: Insufficient balance for ''
                   @ OrderSide_value sd @ '' order'')), s3)
         \<and> place_requests (events s3) = place_requests (events s)
         \<and> sleeps (events s3) = sleeps (events s) @ [1, 2]
         \<and> length (balance_requests (events s3)) = length (balance_requests (events s)) + 3)"
proof -
  let ?body = "place_market_order_body X symb sd q"
  define err where "err = mk_exn OrderError
     (''Market order failed: Insufficient balance for '' @ OrderSide_value sd @ '' order'')"
  have step: "\<exists>a r. fst (?body t) = Inl err
                \<and> events (snd (?body t)) = events t @ [LockAcquire, Call (GetBalance a) r, LockRelease]"
    if "fst (validate_balance X symb sd None None (Some q) (emit LockAcquire t)) = Inr False"
    for t
    unfolding err_def using market_body_refused [OF that] by force
  from step [OF refused] first obtain a1 b1 where r1: "r1 = Inl err"
      and e1: "events s1 = events s @ [LockAcquire, Call (GetBalance a1) b1, LockRelease]"
    by auto
  have run: "place_market_order X symb sd q s = (if returned r2 then (r2, s2) else (r3, s3))"
    unfolding place_market_order_def retry_async_def py_range_3
    using first second third r1
    by (cases r2; cases r3) (simp_all add: returned_def)
  have all: "place_market_order X symb sd q s = (Inl err, s3)
         \<and> place_requests (events s3) = place_requests (events s)
         \<and> sleeps (events s3) = sleeps (events s) @ [1, 2]
         \<and> length (balance_requests (events s3)) = length (balance_requests (events s)) + 3"
    if v2: "fst (validate_balance X symb sd None None (Some q)
                (emit LockAcquire (emit (Sleep 1) s1))) = Inr False"
      and v3: "fst (validate_balance X symb sd None None (Some q)
                (emit LockAcquire (emit (Sleep 2) s2))) = Inr False"
  proof -
    from step [OF v2] second obtain a2 b2 where r2: "r2 = Inl err"
        and e2: "events s2 = events (emit (Sleep 1) s1)
                   @ [LockAcquire, Call (GetBalance a2) b2, LockRelease]"
      by auto
    from step [OF v3] third obtain a3 b3 where r3: "r3 = Inl err"
        and e3: "events s3 = events (emit (Sleep 2) s2)
                   @ [LockAcquire, Call (GetBalance a3) b3, LockRelease]"
      by auto
    have "place_market_order X symb sd q s = (Inl err, s3)"
      using run r2 r3 by (simp add: returned_def)
    moreover have "place_requests (events s3) = place_requests (events s)"
      by (simp add: e1 e2 e3 emit_def place_requests_append)
    moreover have "sleeps (events s3) = sleeps (events s) @ [1, 2]"
      by (simp add: e1 e2 e3 emit_def sleeps_append)
    moreover have "length (balance_requests (events s3))
                     = length (balance_requests (events s)) + 3"
      by (simp add: e1 e2 e3 emit_def balance_requests_append)
    ultimately show ?thesis by simp
  qed
  have "place_requests (events s1) = place_requests (events s)"
    by (simp add: e1 place_requests_append)
  with r1 run all show ?thesis
    unfolding err_def by blast
qed


theorem insufficient_balance_attempts_witness:
  "fst (validate_balance recovering_exchange ''BTCUSDT'' BUY None None (Some 50)
          (emit LockAcquire (TradingService_init 0))) = Inr False
   \<and> fst (place_market_order_body recovering_exchange ''BTCUSDT'' BUY 50 (TradingService_init 0))
       = Inl (mk_exn OrderError ''Market order failed: Insufficient balance for BUY order'')
   \<and> fst (place_market_order recovering_exchange ''BTCUSDT'' BUY 50 (TradingService_init 0))
       = Inr (demo_order \<lparr>p_symbol = ''BTCUSDT'', p_side = BUY, p_type = MARKET,
             p_quantity = None, p_price = None, quoteOrderQty = Some 50, stopPrice = None,
             timeInForce = None\<rparr> 2)
   \<and> sleeps (events (snd (place_market_order recovering_exchange ''BTCUSDT'' BUY 50
         (TradingService_init 0)))) = [1]
   \<and> fst (validate_balance late_exchange ''BTCUSDT'' BUY None None (Some 50)
          (TradingService_init 3)) = Inr True
   \<and> fst (place_market_order late_exchange ''BTCUSDT'' BUY 50 (TradingService_init 0))
       = Inl (mk_exn OrderError ''Market order failed: Insufficient balance for BUY order'')
   \<and> place_requests (events (snd (place_market_order late_exchange ''BTCUSDT'' BUY 50
         (TradingService_init 0)))) = []
   \<and> sleeps (events (snd (place_market_order late_exchange ''BTCUSDT'' BUY 50
         (TradingService_init 0)))) = [1, 2]
   \<and> length (balance_requests (events (snd (place_market_order late_exchange ''BTCUSDT'' BUY 50
         (TradingService_init 0))))) = 3"
proof -
  let ?s = "TradingService_init (0::nat)"
  let ?R = "place_market_order_body recovering_exchange ''BTCUSDT'' BUY 50"
  let ?L = "place_market_order_body late_exchange ''BTCUSDT'' BUY 50"
  let ?R2 = "?R (emit (Sleep 1) (snd (?R ?s)))"
  let ?L2 = "?L (emit (Sleep 1) (snd (?L ?s)))"
  let ?L3 = "?L (emit (Sleep 2) (snd ?L2))"
  have late: "fst (validate_balance late_exchange ''BTCUSDT'' BUY None None (Some 50)
                (TradingService_init 3)) = Inr True"
    by (simp add: run_defs late_exchange_def demo_exchange_def)
  have r: "fst (validate_balance recovering_exchange ''BTCUSDT'' BUY None None (Some 50)
          (emit LockAcquire ?s)) = Inr False"
    by (simp add: run_defs recovering_exchange_def demo_exchange_def)
  have l1: "fst (validate_balance late_exchange ''BTCUSDT'' BUY None None (Some 50)
          (emit LockAcquire ?s)) = Inr False"
    by (simp add: run_defs late_exchange_def demo_exchange_def)
  have l2: "fst (validate_balance late_exchange ''BTCUSDT'' BUY None None (Some 50)
          (emit LockAcquire (emit (Sleep 1) (snd (?L ?s))))) = Inr False"
    by (simp add: run_defs late_exchange_def demo_exchange_def)
  have l3: "fst (validate_balance late_exchange ''BTCUSDT'' BUY None None (Some 50)
          (emit LockAcquire (emit (Sleep 2) (snd ?L2)))) = Inr False"
    by (simp add: run_defs late_exchange_def demo_exchange_def)
  have c: "fst ?R2
       = Inr (demo_order \<lparr>p_symbol = ''BTCUSDT'', p_side = BUY, p_type = MARKET,
             p_quantity = None, p_price = None, quoteOrderQty = Some 50, stopPrice = None,
             timeInForce = None\<rparr> 2)"
    by (simp add: run_defs recovering_exchange_def demo_exchange_def numeral_2_eq_2)
  have d: "sleeps (events (snd ?R2)) = [1]"
    by (simp add: run_defs recovering_exchange_def demo_exchange_def)
  note R = insufficient_balance_attempts [OF surjective_pairing surjective_pairing
             surjective_pairing r]
  note L = insufficient_balance_attempts [OF surjective_pairing surjective_pairing
             surjective_pairing l1, THEN conjunct2, THEN conjunct2, THEN conjunct2, THEN mp,
             OF conjI [OF l2 l3]]
  have e: "events ?s = []"
    by (simp add: TradingService_init_def)
  from c d R have
    "fst (?R ?s)
       = Inl (mk_exn OrderError ''Market order failed: Insufficient balance for BUY order'')"
    and "fst (place_market_order recovering_exchange ''BTCUSDT'' BUY 50 ?s)
       = Inr (demo_order \<lparr>p_symbol = ''BTCUSDT'', p_side = BUY, p_type = MARKET,
             p_quantity = None, p_price = None, quoteOrderQty = Some 50, stopPrice = None,
             timeInForce = None\<rparr> 2)"
    and "sleeps (events (snd (place_market_order recovering_exchange ''BTCUSDT'' BUY 50 ?s)))
       = [1]"
    by (simp_all add: returned_def)
  moreover from e L have
    "place_market_order late_exchange ''BTCUSDT'' BUY 50 ?s
       = (Inl (mk_exn OrderError ''Market order failed: Insufficient balance for BUY order''),
          snd ?L3)"
    and "place_requests (events (snd ?L3)) = []"
    and "sleeps (events (snd ?L3)) = [1, 2]"
    and "length (balance_requests (events (snd ?L3))) = 3"
    by simp_all
  ultimately show ?thesis
    using r late by simp
qed

theorem insufficient_balance_is_retried:
  "fst (validate_balance recovering_exchange ''BTCUSDT'' BUY None None (Some 50)
         (emit LockAcquire (TradingService_init 0))) = Inr False
   \<and> returned (fst (place_market_order recovering_exchange ''BTCUSDT'' BUY 50
         (TradingService_init 0)))
   \<and> events (snd (place_market_order recovering_exchange ''BTCUSDT'' BUY 50
         (TradingService_init 0)))
       = [LockAcquire, Call (GetBalance ''USDT'') True, LockRelease, Sleep 1,
          LockAcquire, Call (GetBalance ''USDT'') True,
          Call (PlaceOrder \<lparr>p_symbol = ''BTCUSDT'', p_side = BUY, p_type = MARKET,
             p_quantity = None, p_price = None, quoteOrderQty = Some 50, stopPrice = None,
             timeInForce = None\<rparr>) True,
          LockRelease]
   \<and> events (snd (place_market_order (demo_exchange 0) ''BTCUSDT'' BUY 50
         (TradingService_init 0)))
       = [LockAcquire, Call (GetBalance ''USDT'') True, LockRelease, Sleep 1,
          LockAcquire, Call (GetBalance ''USDT'') True, LockRelease, Sleep 2,
          LockAcquire, Call (GetBalance ''USDT'') True, LockRelease]"
  by (simp add: run_defs recovering_exchange_def demo_exchange_def)

subsection \<open>A task that runs alone\<close>

text \<open>
  A task between whose pieces no other task runs does what the awaited coroutine does:
  the two embeddings of \<^verbatim>\<open>place_stop_loss_order\<close> and of \<^verbatim>\<open>place_limit_order\<close>, and
  the two of the retry decorator, agree.
\<close>

lemma run_progress_Suspended:
  "run_progress (Suspended rest) s = (case rest s of (p, s') \<Rightarrow> run_progress p s')"
  by (simp split: prod.splits)

lemma resume_with_Suspended:
  "resume_with (Suspended rest) k s
     = (Suspended (\<lambda>s'. case rest s' of (p, s'') \<Rightarrow> resume_with p k s''), s)"
  by (simp add: fun_eq_iff split: prod.splits)

declare run_progress.simps(2) [simp del] resume_with.simps(2) [simp del]

declare run_progress_Suspended [simp] resume_with_Suspended [simp]

lemma run_resume_with:
  "(case resume_with p k s of (p', s') \<Rightarrow> run_progress p' s')
     = (case run_progress p s of (r, s') \<Rightarrow> run_alone (k r) s')"
proof (induction p arbitrary: s)
  case (Finished r)
  show ?case by (simp add: run_alone_def)
next
  case (Suspended rest)
  obtain p1 s1 where r: "rest s = (p1, s1)" by (cases "rest s")
  then have "(p1, s1) \<in> range rest" by (metis rangeI)
  then have ih: "(case resume_with p1 k s1 of (p', s') \<Rightarrow> run_progress p' s')
     = (case run_progress p1 s1 of (r, s') \<Rightarrow> run_alone (k r) s')"
    using Suspended.IH [of "(p1, s1)" p1 s1] by simp
  show ?case
    using ih r by (simp add: resume_with_Suspended run_progress_Suspended)
qed

lemma run_alone_task_then:
  "run_alone (task_then m k) s = (case run_alone m s of (r, s') \<Rightarrow> run_alone (k r) s')"
proof -
  obtain p s1 where m: "m s = (p, s1)" by (cases "m s")
  show ?thesis
    using run_resume_with [of p k s1] m
    by (simp add: run_alone_def task_then_def)
qed

lemma run_alone_task_return: "run_alone (task_return a) = return a"
  by (simp add: fun_eq_iff run_alone_def task_return_def return_def)

lemma run_alone_task_raise: "run_alone (task_raise e) = raise e"
  by (simp add: fun_eq_iff run_alone_def task_raise_def raise_def)

lemma run_alone_atomic: "run_alone (atomic m) = m"
  by (simp add: fun_eq_iff run_alone_def atomic_def split: prod.splits)

lemma run_alone_waiting: "run_alone (waiting m) = m"
  by (simp add: fun_eq_iff run_alone_def waiting_def atomic_def split: prod.splits)

lemma run_alone_task_sleep: "run_alone (task_sleep d) s = (Inr (), emit (Sleep d) s)"
  by (simp add: run_alone_def task_sleep_def task_return_def)

lemma run_alone_task_await:
  "run_alone (task_await m f) = await (run_alone m) (\<lambda>a. run_alone (f a))"
  by (auto simp add: fun_eq_iff task_await_def run_alone_task_then await_def
        run_alone_task_raise raise_def split: prod.splits sum.splits)

lemma run_alone_task_try_except:
  "run_alone (task_try_except m h) = try_except (run_alone m) (\<lambda>e. run_alone (h e))"
  by (auto simp add: fun_eq_iff task_try_except_def run_alone_task_then try_except_def
        run_alone_task_return return_def split: prod.splits sum.splits)

lemma run_alone_task_with_order_lock:
  "run_alone (task_with_order_lock m) = with_order_lock (run_alone m)"
proof -
  have "run_alone (task_with_order_lock m) s = with_order_lock (run_alone m) s" for s
    using run_alone_task_then [of m "\<lambda>r s'. (Finished r, emit LockRelease s')" "emit LockAcquire s"]
    by (simp add: run_alone_def task_with_order_lock_def with_order_lock_def split: prod.splits)
  then show ?thesis by (simp add: fun_eq_iff)
qed

lemma run_alone_retry_task_loop:
  "run_alone (retry_task_loop mr d bf func atts lst) s
     = retry_loop mr d bf (run_alone func) atts lst s"
proof (induction atts arbitrary: lst s)
  case Nil
  show ?case
    by (simp add: run_alone_task_raise raise_def split: option.splits)
next
  case (Cons attempt rest)
  show ?case
  proof (cases "run_alone func s")
    case (Pair r s')
    show ?thesis
    proof (cases r)
      case (Inr a)
      with Pair show ?thesis
        by (simp add: run_alone_task_then run_alone_task_return return_def)
    next
      case (Inl e)
      with Pair show ?thesis
        by (simp add: run_alone_task_then run_alone_task_await await_def run_alone_task_sleep
              Cons.IH)
    qed
  qed
qed

lemma run_alone_place_stop_loss_order_task:
  "run_alone (place_stop_loss_order_task X symb sd qty sp) = place_stop_loss_order X symb sd qty sp"
  by (simp add: fun_eq_iff place_stop_loss_order_task_def place_stop_loss_order_def
        retry_async_task_def retry_async_def run_alone_retry_task_loop run_alone_waiting)

lemma run_alone_place_limit_order_task_body:
  "run_alone (place_limit_order_task_body X symb sd qty prc)
     = place_limit_order_body X symb sd qty prc"
  unfolding place_limit_order_task_body_def place_limit_order_body_def
    run_alone_task_with_order_lock run_alone_task_try_except run_alone_task_await
    run_alone_waiting run_alone_task_raise
  by (simp add: if_distrib [of run_alone] run_alone_task_await run_alone_waiting
        run_alone_atomic run_alone_task_return run_alone_task_raise cong: if_cong)

lemma run_alone_place_limit_order_task:
  "run_alone (place_limit_order_task X symb sd qty prc) = place_limit_order X symb sd qty prc"
  by (simp add: fun_eq_iff place_limit_order_task_def place_limit_order_def
        retry_async_task_def retry_async_def run_alone_retry_task_loop
        run_alone_place_limit_order_task_body)

subsection \<open>The strategy order\<close>

lemma execute_strategy_order_refused:
  assumes "cp \<noteq> 0"
      and "fst (validate_balance X symb sd None None (Some risk) s) = Inr False"
  shows "execute_strategy_order schedule X symb sd risk cp sl tp s
     = (Inl (mk_exn OrderError
               ''Strategy order failed: Insufficient balance for strategy order''),
        snd (validate_balance X symb sd None None (Some risk) s))"
proof -
  obtain s1 where v: "validate_balance X symb sd None None (Some risk) s = (Inr False, s1)"
    using assms(2) by (cases "validate_balance X symb sd None None (Some risk) s") simp
  show ?thesis
    using assms(1) v
    by (simp add: execute_strategy_order_def try_except_def await_def raise_def Let_def
          str_exn_mk_exn)
qed

lemma events_validate_balance:
  "\<exists>a r. events (snd (validate_balance X symb sd qty prc quote_qty s))
     = events s @ [Call (GetBalance a) r]"
  using validate_balance_shape [of X symb sd qty prc quote_qty s]
  by (auto simp add: emit_def)

text \<open>
  C5. The claim fails on a SELL: the code never places a SELL bracket. For every exchange,
  every state of the service, every schedule of the tasks and all amounts,
  \<^verbatim>\<open>execute_strategy_order\<close> with the side SELL raises an order error and sends no
  order-placement request. Its balance check is called with the quote amount alone, which
  the SELL branch of \<^verbatim>\<open>_validate_balance\<close> refuses whatever the balance is; a current
  price of 0 fails before that, in the division. At the input
  \<^verbatim>\<open>execute_strategy_order('BTCUSDT', OrderSide.SELL, 100.0, 50000.0, 0.02, 0.04)\<close>, on a
  fresh service against an exchange where every asset has a free balance of 1000 and every
  order is filled, the call asks for the balance of BTC and raises; the call with the side
  BUY and the same arguments returns there.
\<close>

theorem sell_strategy_order_fails:
  "fst (execute_strategy_order schedule X symb SELL risk cp sl tp s)
     = Inl (mk_exn OrderError
              (if cp = 0 then ''Strategy order failed: float division by zero''
               else ''Strategy order failed: Insufficient balance for strategy order''))
   \<and> place_requests (events (snd (execute_strategy_order schedule X symb SELL risk cp sl tp s)))
       = place_requests (events s)
   \<and> execute_strategy_order [] (demo_exchange 1000) ''BTCUSDT'' SELL 100 50000 (1 / 50) (1 / 25)
         (TradingService_init 0)
       = (Inl (mk_exn OrderError
                 ''Strategy order failed: Insufficient balance for strategy order''),
          (TradingService_init 1)\<lparr>events := [Call (GetBalance ''BTC'') True]\<rparr>)
   \<and> returned (fst (execute_strategy_order [] (demo_exchange 1000) ''BTCUSDT'' BUY 100 50000
         (1 / 50) (1 / 25) (TradingService_init 0)))"
proof -
  let ?E = "execute_strategy_order schedule X symb SELL risk cp sl tp s"
  have general: "fst ?E = Inl (mk_exn OrderError
              (if cp = 0 then ''Strategy order failed: float division by zero''
               else ''Strategy order failed: Insufficient balance for strategy order''))
     \<and> place_requests (events (snd ?E)) = place_requests (events s)"
  proof (cases "cp = 0")
    case True
    then show ?thesis
      by (simp add: execute_strategy_order_def try_except_def raise_def str_exn_mk_exn)
  next
    case False
    obtain a r where "events (snd (validate_balance X symb SELL None None (Some risk) s))
       = events s @ [Call (GetBalance a) r]"
      using events_validate_balance by blast
    with False show ?thesis
      using execute_strategy_order_refused [OF False validate_balance_sell_quote_only,
          where schedule = schedule and X = X and symb = symb and risk = risk and s = s
            and sl = sl and tp = tp]
      by (simp add: place_requests_append)
  qed
  have sell: "execute_strategy_order [] (demo_exchange 1000) ''BTCUSDT'' SELL 100 50000
         (1 / 50) (1 / 25) (TradingService_init 0)
       = (Inl (mk_exn OrderError
                 ''Strategy order failed: Insufficient balance for strategy order''),
          (TradingService_init 1)\<lparr>events := [Call (GetBalance ''BTC'') True]\<rparr>)"
    by (simp add: run_defs demo_exchange_def execute_strategy_order_def)
  have buy: "returned (fst (execute_strategy_order [] (demo_exchange 1000) ''BTCUSDT'' BUY 100
         50000 (1 / 50) (1 / 25) (TradingService_init 0)))"
    by (simp add: run_defs demo_exchange_def execute_strategy_order_def gather_def
          create_task_def calculate_stop_loss_def calculate_take_profit_def side_str_def
          demo_order_def place_stop_loss_order_task_def place_limit_order_task_def
          place_limit_order_task_body_def retry_async_task_def task_then_def task_await_def
          task_try_except_def task_with_order_lock_def task_return_def task_raise_def
          atomic_def waiting_def task_sleep_def)
  from general sell buy show ?thesis by blast
qed


text \<open>
  The BUY call at that input, under three schedules of its two tasks. The market order is
  placed and both tasks are created before the gather; the limit task takes the lock when
  it starts; and the stop-loss placement arrives at the exchange before the requests of the
  limit task, after them, or between its balance request and its placement, in the last
  case and in the first while the limit task holds the lock.
\<close>

lemmas task_defs = execute_strategy_order_def gather_def
          create_task_def calculate_stop_loss_def calculate_take_profit_def side_str_def
          demo_order_def place_stop_loss_order_task_def place_limit_order_task_def
          place_limit_order_task_body_def retry_async_task_def task_then_def task_await_def
          task_try_except_def task_with_order_lock_def task_return_def task_raise_def
          atomic_def waiting_def task_sleep_def stop_loss_params_def limit_params_def

lemma buy_strategy_order_stop_loss_first:
  "events (snd (execute_strategy_order [] (demo_exchange 1000) ''BTCUSDT'' BUY 100 50000
         (1 / 50) (1 / 25) (TradingService_init 0)))
     = [Call (GetBalance ''USDT'') True,
        LockAcquire, Call (GetBalance ''USDT'') True,
        Call (PlaceOrder \<lparr>p_symbol = ''BTCUSDT'', p_side = BUY, p_type = MARKET,
             p_quantity = None, p_price = None, quoteOrderQty = Some 100, stopPrice = None,
             timeInForce = None\<rparr>) True,
        LockRelease,
        CreateTask (StopLossTask ''BTCUSDT'' SELL (1 / 500) 49000),
        CreateTask (LimitTask ''BTCUSDT'' SELL (1 / 500) 52000),
        Gather,
        LockAcquire,
        Call (PlaceOrder (stop_loss_params ''BTCUSDT'' SELL (1 / 500) 49000)) True,
        Call (GetBalance ''BTC'') True,
        Call (PlaceOrder (limit_params ''BTCUSDT'' SELL (1 / 500) 52000)) True,
        LockRelease]"
  by (simp add: run_defs demo_exchange_def task_defs)

lemma buy_strategy_order_limit_first:
  "events (snd (execute_strategy_order [False, False] (demo_exchange 1000) ''BTCUSDT'' BUY 100
         50000 (1 / 50) (1 / 25) (TradingService_init 0)))
     = [Call (GetBalance ''USDT'') True,
        LockAcquire, Call (GetBalance ''USDT'') True,
        Call (PlaceOrder \<lparr>p_symbol = ''BTCUSDT'', p_side = BUY, p_type = MARKET,
             p_quantity = None, p_price = None, quoteOrderQty = Some 100, stopPrice = None,
             timeInForce = None\<rparr>) True,
        LockRelease,
        CreateTask (StopLossTask ''BTCUSDT'' SELL (1 / 500) 49000),
        CreateTask (LimitTask ''BTCUSDT'' SELL (1 / 500) 52000),
        Gather,
        LockAcquire,
        Call (GetBalance ''BTC'') True,
        Call (PlaceOrder (limit_params ''BTCUSDT'' SELL (1 / 500) 52000)) True,
        LockRelease,
        Call (PlaceOrder (stop_loss_params ''BTCUSDT'' SELL (1 / 500) 49000)) True]"
  by (simp add: run_defs demo_exchange_def task_defs)

lemma buy_strategy_order_interleaved:
  "events (snd (execute_strategy_order [False, True] (demo_exchange 1000) ''BTCUSDT'' BUY 100
         50000 (1 / 50) (1 / 25) (TradingService_init 0)))
     = [Call (GetBalance ''USDT'') True,
        LockAcquire, Call (GetBalance ''USDT'') True,
        Call (PlaceOrder \<lparr>p_symbol = ''BTCUSDT'', p_side = BUY, p_type = MARKET,
             p_quantity = None, p_price = None, quoteOrderQty = Some 100, stopPrice = None,
             timeInForce = None\<rparr>) True,
        LockRelease,
        CreateTask (StopLossTask ''BTCUSDT'' SELL (1 / 500) 49000),
        CreateTask (LimitTask ''BTCUSDT'' SELL (1 / 500) 52000),
        Gather,
        LockAcquire,
        Call (GetBalance ''BTC'') True,
        Call (PlaceOrder (stop_loss_params ''BTCUSDT'' SELL (1 / 500) 49000)) True,
        Call (PlaceOrder (limit_params ''BTCUSDT'' SELL (1 / 500) 52000)) True,
        LockRelease]"
  by (simp add: run_defs demo_exchange_def task_defs)

section \<open>Properties of the retry loop of \_request\<close>








end
